theory Spec2Isabelle
  imports Complex_Main
begin

section \<open>Numbers: a model of numpy float64 values\<close>

text \<open>
  The columns of a pandas DataFrame that the metrics pipeline computes with hold numpy
  float64 values. A value is modelled as a rational number or one of the three special
  values of IEEE 754; \<open>NaN\<close> is also pandas' marker of a missing entry.

  What is abstracted: the two signed zeros are one value \<open>Fin 0\<close> (a division by zero
  takes its sign from the numerator alone), and an integer column (int64) is modelled by
  the float64 values of its entries.

  Every arithmetic operation takes the rounding \<open>rnd\<close> of its exact result as a
  parameter. Two roundings are used below: \<open>Fin\<close> itself (exact arithmetic, no
  rounding) and \<open>fl64\<close> (IEEE 754 binary64, round to nearest, ties to even).
\<close>

datatype fp = Fin rat | PInf | NInf | NaN

type_synonym rounding = "rat \<Rightarrow> fp"

function ilog2 :: "int \<Rightarrow> int" where
  "ilog2 n = (if n < 2 then 0 else 1 + ilog2 (n div 2))"
  by pat_completeness auto
termination
  by (relation "measure nat") auto

declare ilog2.simps [simp del]

definition scale2 :: "rat \<Rightarrow> int \<Rightarrow> rat" where
  "scale2 x i = (if 0 \<le> i then x * 2 ^ nat i else x / 2 ^ nat (- i))"

definition floor_log2 :: "rat \<Rightarrow> int" where
  \<comment> \<open>\<open>\<lfloor>log\<^sub>2 a\<rfloor>\<close> for \<open>a > 0\<close>\<close>
  "floor_log2 a =
     (if 1 \<le> a then ilog2 \<lfloor>a\<rfloor>
      else let b = 1 / a; f = ilog2 \<lfloor>b\<rfloor>
           in if scale2 1 f = b then - f else - (f + 1))"

definition round_half_even :: "rat \<Rightarrow> int" where
  "round_half_even m =
     (let k = \<lfloor>m\<rfloor>; r = m - of_int k
      in if r < 1 / 2 then k
         else if 1 / 2 < r then k + 1
         else if even k then k else k + 1)"

definition fl64 :: rounding where
  "fl64 q =
     (if q = 0 then Fin 0
      else
        let a = \<bar>q\<bar>; e = max (floor_log2 a) (- 1022)
        in if 1023 < e then (if 0 < q then PInf else NInf)
           else
             let k = round_half_even (scale2 a (52 - e))
             in if e = 1023 \<and> 2 ^ 53 \<le> k then (if 0 < q then PInf else NInf)
                else Fin (sgn q * scale2 (of_int k) (e - 52)))"

fun fneg :: "fp \<Rightarrow> fp" where
  "fneg (Fin x) = Fin (- x)"
| "fneg PInf = NInf"
| "fneg NInf = PInf"
| "fneg NaN = NaN"

fun fadd :: "rounding \<Rightarrow> fp \<Rightarrow> fp \<Rightarrow> fp" where
  "fadd rnd (Fin x) (Fin y) = rnd (x + y)"
| "fadd rnd NaN b = NaN"
| "fadd rnd a NaN = NaN"
| "fadd rnd PInf NInf = NaN"
| "fadd rnd NInf PInf = NaN"
| "fadd rnd PInf b = PInf"
| "fadd rnd a PInf = PInf"
| "fadd rnd NInf b = NInf"
| "fadd rnd a NInf = NInf"

definition fsub :: "rounding \<Rightarrow> fp \<Rightarrow> fp \<Rightarrow> fp" where
  "fsub rnd a b = fadd rnd a (fneg b)"

fun fsign :: "fp \<Rightarrow> int" where
  \<comment> \<open>the sign of a value that is not NaN: -1, 0 or 1\<close>
  "fsign (Fin x) = (if 0 < x then 1 else if x < 0 then - 1 else 0)"
| "fsign PInf = 1"
| "fsign NInf = - 1"
| "fsign NaN = 0"

definition inf_of_sign :: "int \<Rightarrow> fp" where
  "inf_of_sign s = (if 0 < s then PInf else if s < 0 then NInf else NaN)"

fun fmul :: "rounding \<Rightarrow> fp \<Rightarrow> fp \<Rightarrow> fp" where
  "fmul rnd (Fin x) (Fin y) = rnd (x * y)"
| "fmul rnd NaN b = NaN"
| "fmul rnd a NaN = NaN"
| "fmul rnd a b = inf_of_sign (fsign a * fsign b)"

fun fdiv :: "rounding \<Rightarrow> fp \<Rightarrow> fp \<Rightarrow> fp" where
  "fdiv rnd (Fin x) (Fin y) = (if y = 0 then inf_of_sign (fsign (Fin x)) else rnd (x / y))"
| "fdiv rnd NaN b = NaN"
| "fdiv rnd a NaN = NaN"
| "fdiv rnd (Fin x) b = Fin 0"
| "fdiv rnd a (Fin y) = inf_of_sign (fsign a * (if y < 0 then - 1 else 1))"
| "fdiv rnd a b = NaN"

fun fgt :: "fp \<Rightarrow> fp \<Rightarrow> bool" where
  \<comment> \<open>\<open>a > b\<close>; every comparison with NaN is False\<close>
  "fgt (Fin x) (Fin y) = (y < x)"
| "fgt NaN b = False"
| "fgt a NaN = False"
| "fgt PInf PInf = False"
| "fgt PInf b = True"
| "fgt a NInf = (a \<noteq> NInf)"
| "fgt a b = False"


section \<open>Cells, strings and exceptions\<close>

text \<open>
  A cell of a DataFrame holds a number or a string. A missing entry is \<open>Num NaN\<close>.
\<close>

datatype cell = Num fp | Str string

datatype exn = KeyError string | ValueError string | TypeError string | IndexError string

definition str_exn :: "exn \<Rightarrow> string" where
  \<comment> \<open>\<open>str(e)\<close>: a KeyError prints its key in quotes\<close>
  "str_exn e =
     (case e of
        KeyError k \<Rightarrow> [CHR 0x27] @ k @ [CHR 0x27]
      | ValueError m \<Rightarrow> m
      | TypeError m \<Rightarrow> m
      | IndexError m \<Rightarrow> m)"

definition bind_exn :: "exn + 'a \<Rightarrow> ('a \<Rightarrow> exn + 'b) \<Rightarrow> exn + 'b" where
  "bind_exn m f = (case m of Inl e \<Rightarrow> Inl e | Inr x \<Rightarrow> f x)"

datatype log_entry = Info string | Warning string | Error string

subsection \<open>Reading a number from a string\<close>

text \<open>
  \<open>str_to_float\<close> is the reading of a numeric literal shared by \<open>pd.to_numeric\<close> and
  Python's \<open>float\<close>: blanks around the literal, a sign, then \<open>inf\<close>, \<open>infinity\<close> or
  \<open>nan\<close> in any case, or decimal digits with an optional fraction and exponent. The
  result is the rounding of the exact decimal value. \<open>None\<close> is "not a number".
  Other spellings that one of the two functions accepts (digit groups with underscores
  in \<open>float\<close>, for one) are not covered. The general statements below are about the
  values after coercion and hold whatever the reading of a string is; the reading itself
  matters only for strings with a colon, which no numeric literal contains.
\<close>

definition is_space :: "char \<Rightarrow> bool" where
  "is_space c = (c \<in> set [CHR '' '', CHR 0x09, CHR 0x0A, CHR 0x0B, CHR 0x0C, CHR 0x0D])"

definition strip :: "string \<Rightarrow> string" where
  "strip s = rev (dropWhile is_space (rev (dropWhile is_space s)))"

definition is_digit :: "char \<Rightarrow> bool" where
  "is_digit c = (48 \<le> (of_char c :: nat) \<and> (of_char c :: nat) \<le> 57)"

definition lower :: "char \<Rightarrow> char" where
  "lower c = (if 65 \<le> (of_char c :: nat) \<and> (of_char c :: nat) \<le> 90
              then char_of ((of_char c :: nat) + 32) else c)"

definition digits_value :: "string \<Rightarrow> int" where
  "digits_value ds = foldl (\<lambda>a c. 10 * a + (int (of_char c) - 48)) 0 ds"

definition parse_exponent :: "string \<Rightarrow> int option" where
  "parse_exponent r =
     (let (eneg, ds) =
            (case r of
               [] \<Rightarrow> (False, [])
             | x # y \<Rightarrow> if x = CHR ''-'' then (True, y)
                        else if x = CHR ''+'' then (False, y) else (False, r))
      in if ds \<noteq> [] \<and> list_all is_digit ds
         then Some (if eneg then - digits_value ds else digits_value ds)
         else None)"

definition scale10 :: "rat \<Rightarrow> int \<Rightarrow> rat" where
  "scale10 x i = (if 0 \<le> i then x * 10 ^ nat i else x / 10 ^ nat (- i))"

definition parse_decimal :: "string \<Rightarrow> rat option" where
  "parse_decimal u =
     (let ip = takeWhile is_digit u; r1 = dropWhile is_digit u;
          (fr, r2) =
            (case r1 of
               [] \<Rightarrow> ([], [])
             | c # r \<Rightarrow> if c = CHR ''.'' then (takeWhile is_digit r, dropWhile is_digit r)
                        else ([], r1))
      in if ip = [] \<and> fr = [] then None
         else
           let m = of_int (digits_value (ip @ fr)) / 10 ^ length fr
           in case r2 of
                [] \<Rightarrow> Some m
              | c # r \<Rightarrow>
                  if c = CHR ''e'' \<or> c = CHR ''E''
                  then map_option (scale10 m) (parse_exponent r)
                  else None)"

definition str_to_float :: "rounding \<Rightarrow> string \<Rightarrow> fp option" where
  "str_to_float rnd s =
     (let t = strip s;
          (neg, u) =
            (case t of
               [] \<Rightarrow> (False, [])
             | x # y \<Rightarrow> if x = CHR ''-'' then (True, y)
                        else if x = CHR ''+'' then (False, y) else (False, t));
          w = map lower u
      in if w = ''inf'' \<or> w = ''infinity'' then Some (if neg then NInf else PInf)
         else if w = ''nan'' then Some NaN
         else map_option (\<lambda>q. rnd (if neg then - q else q)) (parse_decimal u))"

definition py_float :: "rounding \<Rightarrow> string \<Rightarrow> exn + fp" where
  \<comment> \<open>Python's \<open>float(s)\<close> on a string\<close>
  "py_float rnd s =
     (case str_to_float rnd s of
        None \<Rightarrow> Inl (ValueError (''could not convert string to float: '' @ s))
      | Some v \<Rightarrow> Inr v)"

fun split_on :: "char \<Rightarrow> string \<Rightarrow> string list" where
  \<comment> \<open>Python's \<open>s.split(sep)\<close> for a separator of one character\<close>
  "split_on sep [] = [[]]"
| "split_on sep (c # cs) =
     (if c = sep then [] # split_on sep cs
      else (case split_on sep cs of
              [] \<Rightarrow> [[c]]
            | p # ps \<Rightarrow> (c # p) # ps))"

definition index :: "'a list \<Rightarrow> nat \<Rightarrow> exn + 'a" where
  \<comment> \<open>\<open>xs[i]\<close> for \<open>i \<ge> 0\<close>\<close>
  "index xs i = (if i < length xs then Inr (xs ! i) else Inl (IndexError ''list index out of range''))"


section \<open>DataFrames\<close>

text \<open>
  A Series is the list of its cells in row order; a DataFrame is the list of its named
  columns in column order. In a well-formed frame the names are distinct and every
  column has one cell per row. Row labels (the index) are not modelled.
\<close>

type_synonym series = "cell list"

type_synonym frame = "(string \<times> series) list"

definition columns :: "frame \<Rightarrow> string list" where
  "columns df = map fst df"

definition wf_frame :: "nat \<Rightarrow> frame \<Rightarrow> bool" where
  \<comment> \<open>a frame of \<open>n\<close> rows\<close>
  "wf_frame n df = (distinct (columns df) \<and> list_all (\<lambda>(c, s). length s = n) df)"

definition getitem :: "frame \<Rightarrow> string \<Rightarrow> exn + series" where
  \<comment> \<open>\<open>df[c]\<close>\<close>
  "getitem df c = (case map_of df c of None \<Rightarrow> Inl (KeyError c) | Some s \<Rightarrow> Inr s)"

definition setitem :: "frame \<Rightarrow> string \<Rightarrow> series \<Rightarrow> frame" where
  \<comment> \<open>\<open>df[c] = s\<close>: replaces the column in place, or appends a new last column\<close>
  "setitem df c s =
     (if c \<in> set (columns df) then map (\<lambda>(n, x). if n = c then (n, s) else (n, x)) df
      else df @ [(c, s)])"

fun getitems :: "frame \<Rightarrow> string list \<Rightarrow> exn + frame" where
  \<comment> \<open>\<open>df[[c1, ..., ck]]\<close>: the listed columns, in the order listed\<close>
  "getitems df [] = Inr []"
| "getitems df (c # cs) =
     bind_exn (getitem df c) (\<lambda>s. bind_exn (getitems df cs) (\<lambda>r. Inr ((c, s) # r)))"

definition to_numeric :: "rounding \<Rightarrow> series \<Rightarrow> series" where
  \<comment> \<open>\<open>pd.to_numeric(s, errors='coerce')\<close>: what is not a number becomes NaN\<close>
  "to_numeric rnd s =
     map (\<lambda>x. case x of
                 Num v \<Rightarrow> Num v
               | Str t \<Rightarrow> (case str_to_float rnd t of None \<Rightarrow> Num NaN | Some v \<Rightarrow> Num v)) s"

definition fillna :: "fp \<Rightarrow> frame \<Rightarrow> frame" where
  \<comment> \<open>\<open>df.fillna(v)\<close>: a new frame, every missing entry of every column replaced\<close>
  "fillna v df = map (\<lambda>(n, s). (n, map (\<lambda>x. if x = Num NaN then Num v else x) s)) df"

fun is_num :: "cell \<Rightarrow> bool" where
  "is_num (Num v) = True"
| "is_num (Str t) = False"

fun the_num :: "cell \<Rightarrow> fp" where
  "the_num (Num v) = v"
| "the_num (Str t) = NaN"

definition floats :: "series \<Rightarrow> exn + fp list" where
  \<comment> \<open>the values of a numeric column; arithmetic on a column that holds a string raises\<close>
  "floats s =
     (if list_all is_num s then Inr (map the_num s)
      else Inl (TypeError ''unsupported operand type(s)''))"

definition numcol :: "frame \<Rightarrow> string \<Rightarrow> exn + fp list" where
  "numcol df c = bind_exn (getitem df c) floats"

subsection \<open>Vectorised arithmetic\<close>

definition ser_add :: "rounding \<Rightarrow> fp list \<Rightarrow> fp list \<Rightarrow> fp list" where
  "ser_add rnd xs ys = map2 (fadd rnd) xs ys"

definition ser_sub :: "rounding \<Rightarrow> fp list \<Rightarrow> fp list \<Rightarrow> fp list" where
  "ser_sub rnd xs ys = map2 (fsub rnd) xs ys"

definition ser_div :: "rounding \<Rightarrow> fp list \<Rightarrow> fp list \<Rightarrow> fp list" where
  \<comment> \<open>a division by zero gives an infinity or NaN in that row and raises nothing\<close>
  "ser_div rnd xs ys = map2 (fdiv rnd) xs ys"

definition sc_mul :: "rounding \<Rightarrow> fp \<Rightarrow> fp list \<Rightarrow> fp list" where
  \<comment> \<open>scalar \<open>*\<close> series\<close>
  "sc_mul rnd c xs = map (fmul rnd c) xs"

definition sc_sub :: "rounding \<Rightarrow> fp \<Rightarrow> fp list \<Rightarrow> fp list" where
  \<comment> \<open>scalar \<open>-\<close> series\<close>
  "sc_sub rnd c xs = map (fsub rnd c) xs"

definition ser_gt0 :: "fp list \<Rightarrow> bool list" where
  \<comment> \<open>series \<open>> 0\<close>\<close>
  "ser_gt0 xs = map (\<lambda>x. fgt x (Fin 0)) xs"

definition np_where :: "bool list \<Rightarrow> fp list \<Rightarrow> fp list \<Rightarrow> fp list" where
  "np_where cs xs ys = map (\<lambda>(c, x, y). if c then x else y) (zip cs (zip xs ys))"

definition np_where0 :: "bool list \<Rightarrow> fp list \<Rightarrow> fp list" where
  \<comment> \<open>\<open>np.where(cs, xs, 0)\<close>: the scalar 0 stands in every row\<close>
  "np_where0 cs xs = np_where cs xs (replicate (length cs) (Fin 0))"

definition lit :: "rounding \<Rightarrow> rat \<Rightarrow> fp" where
  \<comment> \<open>a decimal literal of the source, read as a float\<close>
  "lit rnd q = rnd q"


section \<open>calculate_advanced_metrics\<close>

subsection \<open>Numeric coercion\<close>

definition numeric_cols :: "string list" where
  "numeric_cols =
     [''MIN'', ''FGM'', ''FGA'', ''FG3M'', ''FG3A'', ''FTM'', ''FTA'',
      ''OREB'', ''DREB'', ''REB'', ''AST'', ''STL'', ''BLK'', ''TOV'', ''PF'', ''PTS'',
      ''PLUS_MINUS'']"

fun coerce_numeric :: "rounding \<Rightarrow> string list \<Rightarrow> frame \<times> log_entry list \<Rightarrow> frame \<times> log_entry list" where
  \<comment> \<open>the loop over \<open>numeric_cols\<close>: a column that exists is converted in place, a column
      that does not is reported and otherwise left alone\<close>
  "coerce_numeric rnd [] (df, lg) = (df, lg)"
| "coerce_numeric rnd (col # cols) (df, lg) =
     (case map_of df col of
        Some s \<Rightarrow> coerce_numeric rnd cols (setitem df col (to_numeric rnd s), lg)
      | None \<Rightarrow>
          coerce_numeric rnd cols
            (df, lg @ [Warning (''Column '' @ col @ '' not found in game logs'')]))"

subsection \<open>Minutes played\<close>

definition minutes_lambda :: "rounding \<Rightarrow> cell \<Rightarrow> exn + fp" where
  \<comment> \<open>\<open>lambda x: float(x.split(':')[0]) + float(x.split(':')[1])/60
        if isinstance(x, str) and ':' in x else float(x)\<close>\<close>
  "minutes_lambda rnd x =
     (case x of
        Str t \<Rightarrow>
          if CHR '':'' \<in> set t
          then bind_exn (index (split_on (CHR '':'') t) 0) (\<lambda>mm.
               bind_exn (py_float rnd mm) (\<lambda>a.
               bind_exn (index (split_on (CHR '':'') t) 1) (\<lambda>ss.
               bind_exn (py_float rnd ss) (\<lambda>b.
               Inr (fadd rnd a (fdiv rnd b (Fin 60)))))))
          else py_float rnd t
      | Num v \<Rightarrow> Inr v)"

fun apply_series :: "(cell \<Rightarrow> exn + fp) \<Rightarrow> series \<Rightarrow> exn + fp list" where
  \<comment> \<open>\<open>s.apply(f)\<close>: row by row, the first exception ends it\<close>
  "apply_series f [] = Inr []"
| "apply_series f (x # xs) =
     bind_exn (f x) (\<lambda>v. bind_exn (apply_series f xs) (\<lambda>vs. Inr (v # vs)))"

definition stmt_minutes_played :: "rounding \<Rightarrow> frame \<Rightarrow> exn + frame" where
  "stmt_minutes_played rnd df =
     bind_exn (getitem df ''MIN'') (\<lambda>mn.
     bind_exn (apply_series (minutes_lambda rnd) mn) (\<lambda>mp.
     Inr (setitem df ''MINUTES_PLAYED'' (map Num mp))))"

subsection \<open>The derived columns\<close>

text \<open>
  One definition for each assignment of a derived column, in the order of the source.
  An assignment reads its columns from left to right; the first column that is not in
  the frame raises KeyError and the assignment does not happen.
\<close>

definition stmt_fg_pct :: "rounding \<Rightarrow> frame \<Rightarrow> exn + frame" where
  "stmt_fg_pct rnd df =
     bind_exn (numcol df ''FGA'') (\<lambda>fga.
     bind_exn (numcol df ''FGM'') (\<lambda>fgm.
     Inr (setitem df ''FG_PCT'' (map Num
       (np_where0 (ser_gt0 fga) (ser_div rnd fgm fga))))))"

definition stmt_ts_pct :: "rounding \<Rightarrow> frame \<Rightarrow> exn + frame" where
  "stmt_ts_pct rnd df =
     bind_exn (numcol df ''FGA'') (\<lambda>fga.
     bind_exn (numcol df ''FTA'') (\<lambda>fta.
     bind_exn (numcol df ''PTS'') (\<lambda>pts.
     Inr (setitem df ''TS_PCT'' (map Num
       (np_where0
          (ser_gt0 (ser_add rnd fga (sc_mul rnd (lit rnd (44 / 100)) fta)))
          (ser_div rnd pts
             (sc_mul rnd (Fin 2) (ser_add rnd fga (sc_mul rnd (lit rnd (44 / 100)) fta))))))))))"

definition stmt_pts_per_min :: "rounding \<Rightarrow> frame \<Rightarrow> exn + frame" where
  "stmt_pts_per_min rnd df =
     bind_exn (numcol df ''MINUTES_PLAYED'') (\<lambda>mp.
     bind_exn (numcol df ''PTS'') (\<lambda>pts.
     Inr (setitem df ''PTS_PER_MIN'' (map Num
       (np_where0 (ser_gt0 mp) (ser_div rnd pts mp))))))"

definition stmt_poss :: "rounding \<Rightarrow> frame \<Rightarrow> exn + frame" where
  "stmt_poss rnd df =
     bind_exn (numcol df ''FGA'') (\<lambda>fga.
     bind_exn (numcol df ''OREB'') (\<lambda>oreb.
     bind_exn (numcol df ''TOV'') (\<lambda>tov.
     bind_exn (numcol df ''FTA'') (\<lambda>fta.
     Inr (setitem df ''POSS'' (map Num
       (ser_add rnd (ser_add rnd (ser_sub rnd fga oreb) tov)
          (sc_mul rnd (lit rnd (44 / 100)) fta))))))))"

definition stmt_off_rating :: "rounding \<Rightarrow> frame \<Rightarrow> exn + frame" where
  "stmt_off_rating rnd df =
     bind_exn (numcol df ''POSS'') (\<lambda>poss.
     bind_exn (numcol df ''PTS'') (\<lambda>pts.
     bind_exn (numcol df ''AST'') (\<lambda>ast.
     Inr (setitem df ''OFF_RATING'' (map Num
       (np_where0 (ser_gt0 poss)
          (ser_div rnd
             (sc_mul rnd (Fin 100) (ser_add rnd pts (sc_mul rnd (lit rnd (15 / 10)) ast)))
             poss)))))))"

definition stmt_def_rating :: "rounding \<Rightarrow> frame \<Rightarrow> exn + frame" where
  "stmt_def_rating rnd df =
     bind_exn (numcol df ''MINUTES_PLAYED'') (\<lambda>mp.
     bind_exn (numcol df ''STL'') (\<lambda>stl.
     bind_exn (numcol df ''BLK'') (\<lambda>blk.
     bind_exn (numcol df ''PF'') (\<lambda>pf.
     bind_exn (numcol df ''PLUS_MINUS'') (\<lambda>pm.
     Inr (setitem df ''DEF_RATING'' (map Num
       (np_where0 (ser_gt0 mp)
          (sc_sub rnd (Fin 100)
             (ser_div rnd
                (ser_sub rnd (ser_sub rnd (sc_mul rnd (Fin 5) (ser_add rnd stl blk)) pf) pm)
                mp))))))))))"

definition stmt_game_score :: "rounding \<Rightarrow> frame \<Rightarrow> exn + frame" where
  "stmt_game_score rnd df =
     bind_exn (numcol df ''PTS'') (\<lambda>pts.
     bind_exn (numcol df ''FGM'') (\<lambda>fgm.
     bind_exn (numcol df ''FGA'') (\<lambda>fga.
     bind_exn (numcol df ''FTA'') (\<lambda>fta.
     bind_exn (numcol df ''FTM'') (\<lambda>ftm.
     bind_exn (numcol df ''OREB'') (\<lambda>oreb.
     bind_exn (numcol df ''DREB'') (\<lambda>dreb.
     bind_exn (numcol df ''STL'') (\<lambda>stl.
     bind_exn (numcol df ''AST'') (\<lambda>ast.
     bind_exn (numcol df ''BLK'') (\<lambda>blk.
     bind_exn (numcol df ''PF'') (\<lambda>pf.
     bind_exn (numcol df ''TOV'') (\<lambda>tov.
     Inr (setitem df ''GAME_SCORE'' (map Num
       (ser_sub rnd
         (ser_sub rnd
           (ser_add rnd
             (ser_add rnd
               (ser_add rnd
                 (ser_add rnd
                   (ser_add rnd
                     (ser_sub rnd
                       (ser_sub rnd
                         (ser_add rnd pts (sc_mul rnd (lit rnd (4 / 10)) fgm))
                         (sc_mul rnd (lit rnd (7 / 10)) fga))
                       (sc_mul rnd (lit rnd (4 / 10)) (ser_sub rnd fta ftm)))
                     (sc_mul rnd (lit rnd (7 / 10)) oreb))
                   (sc_mul rnd (lit rnd (3 / 10)) dreb))
                 stl)
               (sc_mul rnd (lit rnd (7 / 10)) ast))
             (sc_mul rnd (lit rnd (7 / 10)) blk))
           (sc_mul rnd (lit rnd (4 / 10)) pf))
         tov)))))))))))))))"

definition stmt_usg_rate :: "rounding \<Rightarrow> frame \<Rightarrow> exn + frame" where
  \<comment> \<open>the one ratio that is not wrapped in \<open>np.where\<close>\<close>
  "stmt_usg_rate rnd df =
     bind_exn (numcol df ''FGA'') (\<lambda>fga.
     bind_exn (numcol df ''FTA'') (\<lambda>fta.
     bind_exn (numcol df ''TOV'') (\<lambda>tov.
     bind_exn (numcol df ''POSS'') (\<lambda>poss.
     Inr (setitem df ''USG_RATE'' (map Num
       (ser_div rnd
          (sc_mul rnd (Fin 100)
             (ser_add rnd (ser_add rnd fga (sc_mul rnd (lit rnd (44 / 100)) fta)) tov))
          poss)))))))"

definition stmt_ast_to_ratio :: "rounding \<Rightarrow> frame \<Rightarrow> exn + frame" where
  "stmt_ast_to_ratio rnd df =
     bind_exn (numcol df ''TOV'') (\<lambda>tov.
     bind_exn (numcol df ''AST'') (\<lambda>ast.
     Inr (setitem df ''AST_TO_RATIO'' (map Num
       (np_where (ser_gt0 tov) (ser_div rnd ast tov) ast)))))"

definition derivations :: "rounding \<Rightarrow> (frame \<Rightarrow> exn + frame) list" where
  "derivations rnd =
     [stmt_minutes_played rnd, stmt_fg_pct rnd, stmt_ts_pct rnd, stmt_pts_per_min rnd,
      stmt_poss rnd, stmt_off_rating rnd, stmt_def_rating rnd, stmt_game_score rnd,
      stmt_usg_rate rnd, stmt_ast_to_ratio rnd]"

fun run_stmts :: "(frame \<Rightarrow> exn + frame) list \<Rightarrow> frame \<Rightarrow> frame \<times> exn option" where
  \<comment> \<open>the assignments in sequence on one frame object: the state reached, and the
      exception that stopped the sequence, if one did\<close>
  "run_stmts [] df = (df, None)"
| "run_stmts (st # sts) df =
     (case st df of Inl e \<Rightarrow> (df, Some e) | Inr df' \<Rightarrow> run_stmts sts df')"

subsection \<open>The object store\<close>

text \<open>
  Frames are objects: \<open>df[c] = s\<close> changes the frame that \<open>df\<close> refers to, for every
  holder of that reference. The store is the list of the frames allocated so far and a
  reference is a position in it.
\<close>

type_synonym ref = nat

type_synonym heap = "frame list"

definition alloc :: "heap \<Rightarrow> frame \<Rightarrow> heap \<times> ref" where
  "alloc h fr = (h @ [fr], length h)"

definition copy :: "heap \<Rightarrow> ref \<Rightarrow> heap \<times> ref" where
  \<comment> \<open>\<open>game_logs.copy()\<close>: a new object with the same contents\<close>
  "copy h r = alloc h (h ! r)"

definition try_body :: "rounding \<Rightarrow> heap \<Rightarrow> ref \<Rightarrow> heap \<times> log_entry list \<times> (exn + ref)" where
  \<comment> \<open>the body of the \<open>try\<close>: it works on the object \<open>df\<close>, and on the object that
      \<open>df = df.fillna(0)\<close> creates; it ends with the reference it returns or with the
      exception that left it\<close>
  "try_body rnd h df =
     (let (fr1, lg) = coerce_numeric rnd numeric_cols (h ! df, []);
          h2 = h[df := fr1];
          (h3, df') = alloc h2 (fillna (Fin 0) (h2 ! df));
          (fr3, ex) = run_stmts (derivations rnd) (h3 ! df');
          h4 = h3[df' := fr3]
      in (h4, lg, case ex of None \<Rightarrow> Inr df' | Some e \<Rightarrow> Inl e))"

definition calculate_advanced_metrics ::
  "rounding \<Rightarrow> heap \<Rightarrow> ref \<Rightarrow> heap \<times> log_entry list \<times> ref" where
  "calculate_advanced_metrics rnd h game_logs =
     (let (h1, df) = copy h game_logs
      in case try_body rnd h1 df of
           (h4, lg, Inr r) \<Rightarrow> (h4, lg, r)
         | (h4, lg, Inl e) \<Rightarrow>
             (h4, lg @ [Error (''Error calculating advanced metrics: '' @ str_exn e)],
              game_logs))"

section \<open>get_player_stats\<close>

subsection \<open>Sorting by a column\<close>

text \<open>
  \<open>sort_values(by, ascending=False)\<close> asks pandas for the positions of the rows in
  descending order of the key column and takes the rows in that order. The source passes
  no \<open>kind\<close>, so the positions come from pandas' default sort (\<open>quicksort\<close>), whose
  order among equal keys is the library's choice, and which raises when two keys cannot
  be compared. That computation is a parameter here: an \<open>argsort\<close> maps the key column
  to the positions, or to the exception.
\<close>

type_synonym argsort = "series \<Rightarrow> exn + nat list"

definition iloc :: "frame \<Rightarrow> nat list \<Rightarrow> frame" where
  \<comment> \<open>the rows at the given positions, in the given order\<close>
  "iloc df p = map (\<lambda>(n, s). (n, map (\<lambda>i. s ! i) p)) df"

definition sort_values :: "argsort \<Rightarrow> frame \<Rightarrow> string \<Rightarrow> exn + frame" where
  "sort_values srt df by =
     bind_exn (getitem df by) (\<lambda>keys.
     bind_exn (srt keys) (\<lambda>p.
     Inr (iloc df p)))"

subsection \<open>Projection\<close>

definition ts_columns :: "string list" where
  "ts_columns =
     [''GAME_DATE'', ''GAME_ID'',
      ''FG_PCT'', ''TS_PCT'', ''PTS_PER_MIN'',
      ''PLUS_MINUS'', ''OFF_RATING'', ''DEF_RATING'', ''GAME_SCORE'',
      ''USG_RATE'', ''MINUTES_PLAYED'', ''AST_TO_RATIO'']"

definition available_columns :: "frame \<Rightarrow> string list" where
  \<comment> \<open>\<open>[col for col in ts_columns if col in player_stats.columns]\<close>\<close>
  "available_columns player_stats = filter (\<lambda>col. col \<in> set (columns player_stats)) ts_columns"

definition project :: "argsort \<Rightarrow> frame \<Rightarrow> exn + frame" where
  \<comment> \<open>\<open>player_stats[available_columns].sort_values('GAME_DATE', ascending=False)\<close>\<close>
  "project srt player_stats =
     bind_exn (getitems player_stats (available_columns player_stats)) (\<lambda>sel.
     sort_values srt sel ''GAME_DATE'')"

subsection \<open>Retrieval\<close>

text \<open>
  \<open>get_recent_game_logs\<close> asks the statistics service for the player and for the game
  logs of one or two seasons. What the service calls give is an argument here
  (\<open>fetched\<close>): the exception that one of them raised, \<open>None\<close> when the player is not
  found, or the reference to the frame of game logs after the concatenation of the
  seasons. The function's own steps on that frame are modelled: the first \<open>num_games\<close>
  rows are taken, and a frame without rows is answered with \<open>None\<close>.
\<close>

definition nrows :: "frame \<Rightarrow> nat" where
  \<comment> \<open>\<open>len(df)\<close>\<close>
  "nrows df = (case df of [] \<Rightarrow> 0 | (c, s) # rest \<Rightarrow> length s)"

definition head :: "int \<Rightarrow> frame \<Rightarrow> frame" where
  \<comment> \<open>\<open>df.head(n)\<close>: the first \<open>n\<close> rows; for a negative \<open>n\<close>, all rows but the last \<open>-n\<close>\<close>
  "head n df =
     map (\<lambda>(c, s). (c, if 0 \<le> n then take (nat n) s else take (length s - nat (- n)) s)) df"

definition get_recent_game_logs ::
  "string \<Rightarrow> int \<Rightarrow> heap \<Rightarrow> exn + ref option \<Rightarrow> heap \<times> log_entry list \<times> ref option" where
  "get_recent_game_logs player_name num_games h fetched =
     (case fetched of
        Inl e \<Rightarrow>
          (h, [Error (''Error retrieving game logs for '' @ player_name @ '': '' @ str_exn e)],
           None)
      | Inr None \<Rightarrow> (h, [], None)
      | Inr (Some r) \<Rightarrow>
          let (h1, df) = alloc h (head num_games (h ! r))
          in if nrows (h1 ! df) = 0
             then (h1, [Warning (''No game logs found for player: '' @ player_name)], None)
             else (h1, [], Some df))"

subsection \<open>Retrieval, enrichment and projection\<close>

text \<open>
  \<open>calculate_advanced_metrics\<close> always returns a frame, so the test
  \<open>player_stats is not None\<close> always holds.
\<close>

definition get_player_stats ::
  "argsort \<Rightarrow> rounding \<Rightarrow> string \<Rightarrow> int \<Rightarrow> heap \<Rightarrow> exn + ref option \<Rightarrow>
   heap \<times> log_entry list \<times> (exn + ref option)" where
  "get_player_stats srt rnd player_name num_games h fetched =
     (let lg0 = [Info (''Retrieving stats for player: '' @ player_name)];
          (h0, lgr, game_logs) = get_recent_game_logs player_name num_games h fetched
      in case game_logs of
           None \<Rightarrow>
             (h0, lg0 @ lgr @ [Warning (''No game logs found for player: '' @ player_name)],
              Inr None)
         | Some gl \<Rightarrow>
             let (h1, lg1, player_stats) = calculate_advanced_metrics rnd h0 gl
             in case project srt (h1 ! player_stats) of
                  Inl e \<Rightarrow> (h1, lg0 @ lgr @ lg1, Inl e)
                | Inr fr \<Rightarrow>
                    let (h2, filtered_stats) = alloc h1 fr
                    in (h2,
                        lg0 @ lgr @ lg1 @
                          [Info (''Successfully retrieved stats for player: '' @ player_name)],
                        Inr (Some filtered_stats)))"

section \<open>Reading frames row by row\<close>

definition required_cols :: "string list" where
  \<comment> \<open>the input columns that the derivations read, in the order of their first use\<close>
  "required_cols =
     [''MIN'', ''FGA'', ''FGM'', ''FTA'', ''PTS'', ''OREB'', ''TOV'', ''AST'',
      ''STL'', ''BLK'', ''PF'', ''PLUS_MINUS'', ''FTM'', ''DREB'']"

definition has_columns :: "frame \<Rightarrow> string list \<Rightarrow> bool" where
  "has_columns df cs = list_all (\<lambda>c. c \<in> set (columns df)) cs"

definition numeric_at :: "frame \<Rightarrow> nat \<Rightarrow> string \<Rightarrow> bool" where
  \<comment> \<open>column \<open>c\<close> exists, has a row \<open>i\<close>, and holds a number there\<close>
  "numeric_at df i c =
     (case map_of df c of None \<Rightarrow> False | Some s \<Rightarrow> i < length s \<and> is_num (s ! i))"

definition row :: "frame \<Rightarrow> nat \<Rightarrow> string \<Rightarrow> fp" where
  \<comment> \<open>the number in row \<open>i\<close> of column \<open>c\<close>, where \<open>numeric_at df i c\<close>\<close>
  "row df i c = (case map_of df c of None \<Rightarrow> NaN | Some s \<Rightarrow> the_num (s ! i))"

definition cell_at :: "frame \<Rightarrow> nat \<Rightarrow> string \<Rightarrow> cell option" where
  "cell_at df i c =
     (case map_of df c of None \<Rightarrow> None | Some s \<Rightarrow> if i < length s then Some (s ! i) else None)"

definition coerced :: "rounding \<Rightarrow> cell \<Rightarrow> fp" where
  \<comment> \<open>a cell of a numeric column after \<open>to_numeric\<close> and \<open>fillna(0)\<close>\<close>
  "coerced rnd x =
     (let v = (case x of
                 Num v \<Rightarrow> v
               | Str t \<Rightarrow> (case str_to_float rnd t of None \<Rightarrow> NaN | Some v \<Rightarrow> v))
      in if v = NaN then Fin 0 else v)"

definition prepared :: "rounding \<Rightarrow> frame \<Rightarrow> frame" where
  \<comment> \<open>the frame on which the derivations start\<close>
  "prepared rnd df = fillna (Fin 0) (fst (coerce_numeric rnd numeric_cols (df, [])))"

definition enriched :: "rounding \<Rightarrow> heap \<Rightarrow> ref \<Rightarrow> frame" where
  \<comment> \<open>the frame that \<open>calculate_advanced_metrics\<close> returns\<close>
  "enriched rnd h game_logs =
     (case calculate_advanced_metrics rnd h game_logs of (h', lg, r) \<Rightarrow> h' ! r)"


section \<open>The derived columns in closed form\<close>

text \<open>
  \<open>v\<close> gives the values of each input column. The definitions below are the right-hand
  sides of the ten assignments, with every column read replaced by its values, and the
  frame that the ten assignments build from them.
\<close>

definition base_vectors :: "rounding \<Rightarrow> frame \<Rightarrow> string \<Rightarrow> fp list" where
  \<comment> \<open>the values of an input column after coercion and zero-filling\<close>
  "base_vectors rnd df c = (case map_of df c of None \<Rightarrow> [] | Some s \<Rightarrow> map (coerced rnd) s)"

definition vec_fg_pct :: "rounding \<Rightarrow> (string \<Rightarrow> fp list) \<Rightarrow> fp list" where
  "vec_fg_pct rnd v = np_where0 (ser_gt0 (v ''FGA'')) (ser_div rnd (v ''FGM'') (v ''FGA''))"

definition vec_ts_pct :: "rounding \<Rightarrow> (string \<Rightarrow> fp list) \<Rightarrow> fp list" where
  "vec_ts_pct rnd v =
     np_where0
       (ser_gt0 (ser_add rnd (v ''FGA'') (sc_mul rnd (lit rnd (44 / 100)) (v ''FTA''))))
       (ser_div rnd (v ''PTS'')
          (sc_mul rnd (Fin 2) (ser_add rnd (v ''FGA'') (sc_mul rnd (lit rnd (44 / 100)) (v ''FTA'')))))"

definition vec_pts_per_min :: "rounding \<Rightarrow> (string \<Rightarrow> fp list) \<Rightarrow> fp list" where
  "vec_pts_per_min rnd v = np_where0 (ser_gt0 (v ''MIN'')) (ser_div rnd (v ''PTS'') (v ''MIN''))"

definition vec_poss :: "rounding \<Rightarrow> (string \<Rightarrow> fp list) \<Rightarrow> fp list" where
  "vec_poss rnd v =
     ser_add rnd (ser_add rnd (ser_sub rnd (v ''FGA'') (v ''OREB'')) (v ''TOV''))
       (sc_mul rnd (lit rnd (44 / 100)) (v ''FTA''))"

definition vec_off_rating :: "rounding \<Rightarrow> (string \<Rightarrow> fp list) \<Rightarrow> fp list" where
  "vec_off_rating rnd v =
     np_where0 (ser_gt0 (vec_poss rnd v))
       (ser_div rnd
          (sc_mul rnd (Fin 100) (ser_add rnd (v ''PTS'') (sc_mul rnd (lit rnd (15 / 10)) (v ''AST''))))
          (vec_poss rnd v))"

definition vec_def_rating :: "rounding \<Rightarrow> (string \<Rightarrow> fp list) \<Rightarrow> fp list" where
  "vec_def_rating rnd v =
     np_where0 (ser_gt0 (v ''MIN''))
       (sc_sub rnd (Fin 100)
          (ser_div rnd
             (ser_sub rnd
                (ser_sub rnd (sc_mul rnd (Fin 5) (ser_add rnd (v ''STL'') (v ''BLK''))) (v ''PF''))
                (v ''PLUS_MINUS''))
             (v ''MIN'')))"

definition vec_game_score :: "rounding \<Rightarrow> (string \<Rightarrow> fp list) \<Rightarrow> fp list" where
  "vec_game_score rnd v =
       (ser_sub rnd
         (ser_sub rnd
           (ser_add rnd
             (ser_add rnd
               (ser_add rnd
                 (ser_add rnd
                   (ser_add rnd
                     (ser_sub rnd
                       (ser_sub rnd
                         (ser_add rnd (v ''PTS'') (sc_mul rnd (lit rnd (4 / 10)) (v ''FGM'')))
                         (sc_mul rnd (lit rnd (7 / 10)) (v ''FGA'')))
                       (sc_mul rnd (lit rnd (4 / 10)) (ser_sub rnd (v ''FTA'') (v ''FTM''))))
                     (sc_mul rnd (lit rnd (7 / 10)) (v ''OREB'')))
                   (sc_mul rnd (lit rnd (3 / 10)) (v ''DREB'')))
                 (v ''STL''))
               (sc_mul rnd (lit rnd (7 / 10)) (v ''AST'')))
             (sc_mul rnd (lit rnd (7 / 10)) (v ''BLK'')))
           (sc_mul rnd (lit rnd (4 / 10)) (v ''PF'')))
         (v ''TOV''))"

definition vec_usg_rate :: "rounding \<Rightarrow> (string \<Rightarrow> fp list) \<Rightarrow> fp list" where
  "vec_usg_rate rnd v =
     ser_div rnd
       (sc_mul rnd (Fin 100)
          (ser_add rnd (ser_add rnd (v ''FGA'') (sc_mul rnd (lit rnd (44 / 100)) (v ''FTA''))) (v ''TOV'')))
       (vec_poss rnd v)"

definition vec_ast_to_ratio :: "rounding \<Rightarrow> (string \<Rightarrow> fp list) \<Rightarrow> fp list" where
  "vec_ast_to_ratio rnd v = np_where (ser_gt0 (v ''TOV'')) (ser_div rnd (v ''AST'') (v ''TOV'')) (v ''AST'')"

definition derived_frame :: "rounding \<Rightarrow> (string \<Rightarrow> fp list) \<Rightarrow> frame \<Rightarrow> frame" where
  "derived_frame rnd v df =
     setitem (setitem (setitem (setitem (setitem (setitem (setitem (setitem (setitem (setitem df
       ''MINUTES_PLAYED'' (map Num (v ''MIN'')))
       ''FG_PCT'' (map Num (vec_fg_pct rnd v)))
       ''TS_PCT'' (map Num (vec_ts_pct rnd v)))
       ''PTS_PER_MIN'' (map Num (vec_pts_per_min rnd v)))
       ''POSS'' (map Num (vec_poss rnd v)))
       ''OFF_RATING'' (map Num (vec_off_rating rnd v)))
       ''DEF_RATING'' (map Num (vec_def_rating rnd v)))
       ''GAME_SCORE'' (map Num (vec_game_score rnd v)))
       ''USG_RATE'' (map Num (vec_usg_rate rnd v)))
       ''AST_TO_RATIO'' (map Num (vec_ast_to_ratio rnd v))"



definition derived_cols :: "string list" where
  "derived_cols =
     [''MINUTES_PLAYED'', ''FG_PCT'', ''TS_PCT'', ''PTS_PER_MIN'', ''POSS'',
      ''OFF_RATING'', ''DEF_RATING'', ''GAME_SCORE'', ''USG_RATE'', ''AST_TO_RATIO'']"

section \<open>The order of sort keys\<close>








definition select_available :: "frame \<Rightarrow> frame" where
  \<comment> \<open>the columns of \<open>ts_columns\<close> that the frame has, in the order of \<open>ts_columns\<close>\<close>
  "select_available df =
     map (\<lambda>c. (c, case map_of df c of None \<Rightarrow> [] | Some s \<Rightarrow> s)) (available_columns df)"

section \<open>Example game logs\<close>

definition one_game :: "string \<Rightarrow> string \<Rightarrow> (string \<times> rat) list \<Rightarrow> frame" where
  \<comment> \<open>the game log of one game: date, id and the named statistics\<close>
  "one_game date gid stats =
     (''GAME_DATE'', [Str date]) # (''GAME_ID'', [Str gid]) #
       map (\<lambda>(c, x). (c, [Num (Fin x)])) stats"

definition box_score :: "(string \<times> rat) list" where
  "box_score =
     [(''MIN'', 30), (''FGM'', 10), (''FGA'', 20), (''FTM'', 4), (''FTA'', 5),
      (''OREB'', 2), (''DREB'', 6), (''AST'', 5), (''STL'', 1), (''BLK'', 1),
      (''TOV'', 2), (''PF'', 3), (''PTS'', 25), (''PLUS_MINUS'', 7)]"

definition game_logs_example :: frame where
  "game_logs_example = one_game ''2024-01-01'' ''0022300001'' box_score"

definition game_logs_mmss :: frame where
  \<comment> \<open>the same game with the minutes as a string\<close>
  "game_logs_mmss = setitem game_logs_example ''MIN'' [Str ''32:30'']"

definition game_logs_no_pf :: frame where
  "game_logs_no_pf = filter (\<lambda>(c, s). c \<noteq> ''PF'') game_logs_example"

definition game_logs_no_date :: frame where
  "game_logs_no_date = filter (\<lambda>(c, s). c \<noteq> ''GAME_DATE'') game_logs_example"








section \<open>Frames: reading and writing columns\<close>


lemma map_of_setitem:
  "map_of (setitem df c s) c' = (if c' = c then Some s else map_of df c')"
proof (cases "c \<in> set (columns df)")
  case True
  have "map_of (map (\<lambda>(n, x). if n = c then (n, s) else (n, x)) df) c'
        = (if c' = c then (if c \<in> fst ` set df then Some s else None) else map_of df c')"
    by (induction df) (force split: if_splits)+
  with True show ?thesis by (simp add: setitem_def columns_def)
next
  case False
  then have "map_of df c = None" by (simp add: columns_def map_of_eq_None_iff)
  with False show ?thesis by (auto simp: setitem_def map_add_def split: option.splits)
qed

lemma columns_setitem:
  "columns (setitem df c s) = (if c \<in> set (columns df) then columns df else columns df @ [c])"
proof -
  have "map fst (map (\<lambda>(n, x). if n = c then (n, s) else (n, x)) df) = map fst df"
    by (induction df) auto
  then show ?thesis by (simp add: setitem_def columns_def)
qed

lemma in_columns_iff: "c \<in> set (columns df) \<longleftrightarrow> map_of df c \<noteq> None"
  by (simp add: columns_def map_of_eq_None_iff)

lemma wf_frame_setitem:
  assumes "wf_frame n df" "length s = n"
  shows "wf_frame n (setitem df c s)"
proof -
  have d: "distinct (columns (setitem df c s))"
    using assms(1) by (simp add: columns_setitem wf_frame_def)
  have "list_all (\<lambda>(c, s). length s = n) df" using assms by (simp add: wf_frame_def)
  then have "list_all (\<lambda>(c, s). length s = n) (map (\<lambda>(m, x). if m = c then (m, s) else (m, x)) df)"
    using assms(2) by (induction df) (auto split: if_splits)
  then have "list_all (\<lambda>(c, s). length s = n) (setitem df c s)"
    using assms by (simp add: setitem_def wf_frame_def)
  with d show ?thesis by (simp add: wf_frame_def)
qed

lemma wf_frame_length:
  "wf_frame n df \<Longrightarrow> map_of df c = Some s \<Longrightarrow> length s = n"
  by (auto simp: wf_frame_def list_all_iff dest!: map_of_SomeD)

lemma to_numeric_idem: "to_numeric rnd (to_numeric rnd s) = to_numeric rnd s"
  by (induction s) (auto simp: to_numeric_def split: cell.splits option.splits)

lemma length_to_numeric [simp]: "length (to_numeric rnd s) = length s"
  by (simp add: to_numeric_def)

lemma coerce_numeric_map_of:
  "map_of (fst (coerce_numeric rnd cols (df, lg))) c =
     (if c \<in> set cols then map_option (to_numeric rnd) (map_of df c) else map_of df c)"
proof (induction cols arbitrary: df lg)
  case Nil
  then show ?case by simp
next
  case (Cons col cols)
  show ?case
  proof (cases "map_of df col")
    case None
    then show ?thesis using Cons.IH [of df] by auto
  next
    case (Some s)
    then show ?thesis using Cons.IH [of "setitem df col (to_numeric rnd s)"]
      by (auto simp: map_of_setitem to_numeric_idem)
  qed
qed

lemma coerce_numeric_columns:
  "columns (fst (coerce_numeric rnd cols (df, lg))) = columns df"
proof (induction cols arbitrary: df lg)
  case Nil
  then show ?case by simp
next
  case (Cons col cols)
  show ?case
  proof (cases "map_of df col")
    case None
    then show ?thesis using Cons.IH [of df] by auto
  next
    case (Some s)
    then have "col \<in> set (columns df)" by (simp add: in_columns_iff)
    then show ?thesis using Some Cons.IH [of "setitem df col (to_numeric rnd s)"]
      by (simp add: columns_setitem)
  qed
qed

lemma map_of_fillna:
  "map_of (fillna v df) c = map_option (map (\<lambda>x. if x = Num NaN then Num v else x)) (map_of df c)"
  by (induction df) (auto simp: fillna_def)

lemma columns_fillna: "columns (fillna v df) = columns df"
  by (induction df) (auto simp: fillna_def columns_def)


lemma fill_to_numeric:
  "map (\<lambda>x. if x = Num NaN then Num (Fin 0) else x) (to_numeric rnd s) = map (Num \<circ> coerced rnd) s"
  by (induction s) (auto simp: to_numeric_def coerced_def Let_def split: cell.splits option.splits)

lemma map_of_prepared:
  "c \<in> set numeric_cols \<Longrightarrow>
   map_of (prepared rnd df) c = map_option (map (Num \<circ> coerced rnd)) (map_of df c)"
  by (cases "map_of df c") (simp_all add: prepared_def map_of_fillna coerce_numeric_map_of fill_to_numeric)

lemma columns_prepared: "columns (prepared rnd df) = columns df"
  by (simp add: prepared_def columns_fillna coerce_numeric_columns)

lemma coerced_not_NaN: "coerced rnd x \<noteq> NaN"
  by (simp add: coerced_def Let_def)

lemma floats_map_Num: "floats (map Num xs) = Inr xs"
  by (induction xs) (auto simp: floats_def list_all_iff comp_def map_idI)

lemma floats_map_Num_comp: "floats (map (Num \<circ> f) s) = Inr (map f s)"
  using floats_map_Num [of "map f s"] by simp

lemma numcol_prepared:
  "c \<in> set numeric_cols \<Longrightarrow> map_of df c = Some s \<Longrightarrow>
   numcol (prepared rnd df) c = Inr (map (coerced rnd) s)"
  by (simp add: numcol_def getitem_def bind_exn_def map_of_prepared floats_map_Num_comp)

lemma numcol_absent: "map_of df c = None \<Longrightarrow> numcol df c = Inl (KeyError c)"
  by (simp add: numcol_def getitem_def bind_exn_def)

lemma numcol_setitem:
  "numcol (setitem df c (map Num xs)) c' = (if c' = c then Inr xs else numcol df c')"
  by (simp add: numcol_def getitem_def bind_exn_def map_of_setitem floats_map_Num)

lemma apply_minutes_Num:
  "apply_series (minutes_lambda rnd) (map (Num \<circ> f) s) = Inr (map f s)"
  by (induction s) (simp_all add: minutes_lambda_def bind_exn_def)


lemma length_ser_ops [simp]:
  "length (ser_add rnd xs ys) = min (length xs) (length ys)"
  "length (ser_sub rnd xs ys) = min (length xs) (length ys)"
  "length (ser_div rnd xs ys) = min (length xs) (length ys)"
  "length (sc_mul rnd c xs) = length xs"
  "length (sc_sub rnd c xs) = length xs"
  "length (ser_gt0 xs) = length xs"
  "length (np_where cs xs ys) = min (length cs) (min (length xs) (length ys))"
  "length (np_where0 cs xs) = min (length cs) (length xs)"
  by (simp_all add: ser_add_def ser_sub_def ser_div_def sc_mul_def sc_sub_def ser_gt0_def
      np_where_def np_where0_def)

lemma nth_ser_ops [simp]:
  "i < length xs \<Longrightarrow> i < length ys \<Longrightarrow> ser_add rnd xs ys ! i = fadd rnd (xs ! i) (ys ! i)"
  "i < length xs \<Longrightarrow> i < length ys \<Longrightarrow> ser_sub rnd xs ys ! i = fsub rnd (xs ! i) (ys ! i)"
  "i < length xs \<Longrightarrow> i < length ys \<Longrightarrow> ser_div rnd xs ys ! i = fdiv rnd (xs ! i) (ys ! i)"
  "i < length xs \<Longrightarrow> sc_mul rnd c xs ! i = fmul rnd c (xs ! i)"
  "i < length xs \<Longrightarrow> sc_sub rnd c xs ! i = fsub rnd c (xs ! i)"
  "i < length xs \<Longrightarrow> ser_gt0 xs ! i = fgt (xs ! i) (Fin 0)"
  by (simp_all add: ser_add_def ser_sub_def ser_div_def sc_mul_def sc_sub_def ser_gt0_def)

lemma nth_np_where [simp]:
  "i < length cs \<Longrightarrow> i < length xs \<Longrightarrow> i < length ys \<Longrightarrow>
   np_where cs xs ys ! i = (if cs ! i then xs ! i else ys ! i)"
  by (simp add: np_where_def)

lemma nth_np_where0 [simp]:
  "i < length cs \<Longrightarrow> i < length xs \<Longrightarrow>
   np_where0 cs xs ! i = (if cs ! i then xs ! i else Fin 0)"
  by (simp add: np_where0_def)

lemma numcol_row:
  assumes "numcol df c = Inr xs" "i < length xs"
  shows "row df i c = xs ! i" and "numeric_at df i c"
proof -
  from assms(1) obtain s where s: "map_of df c = Some s" "floats s = Inr xs"
    by (auto simp: numcol_def getitem_def bind_exn_def split: option.splits)
  then have "list_all is_num s" "xs = map the_num s"
    by (auto simp: floats_def split: if_splits)
  with s assms(2) show "row df i c = xs ! i" and "numeric_at df i c"
    by (auto simp: row_def numeric_at_def list_all_length)
qed


lemma apply_minutes_map_Num:
  "apply_series (minutes_lambda rnd) (map Num xs) = Inr xs"
  using apply_minutes_Num [of rnd id xs] by simp

lemma run_derivations:
  assumes "\<And>c. c \<in> set required_cols \<Longrightarrow> map_of df c = Some (map Num (v c))"
  shows "run_stmts (derivations rnd) df = (derived_frame rnd v df, None)"
proof -
  have b: "numcol df c = Inr (v c)" if "c \<in> set required_cols" for c
    using assms [OF that] by (simp add: numcol_def getitem_def bind_exn_def floats_map_Num)
  note bs = b [of "''FGA''"] b [of "''FGM''"] b [of "''FTA''"] b [of "''PTS''"] b [of "''OREB''"]
    b [of "''TOV''"] b [of "''AST''"] b [of "''STL''"] b [of "''BLK''"] b [of "''PF''"]
    b [of "''PLUS_MINUS''"] b [of "''FTM''"] b [of "''DREB''"]
  have m: "getitem df ''MIN'' = Inr (map Num (v ''MIN''))"
    using assms [of "''MIN''"] by (simp add: required_cols_def getitem_def)
  show ?thesis
    using bs m
    by (simp add: required_cols_def derivations_def derived_frame_def
        stmt_minutes_played_def stmt_fg_pct_def stmt_ts_pct_def stmt_pts_per_min_def
        stmt_poss_def stmt_off_rating_def stmt_def_rating_def stmt_game_score_def
        stmt_usg_rate_def stmt_ast_to_ratio_def
        vec_fg_pct_def vec_ts_pct_def vec_pts_per_min_def vec_poss_def vec_off_rating_def
        vec_def_rating_def vec_game_score_def vec_usg_rate_def vec_ast_to_ratio_def
        bind_exn_def numcol_setitem apply_minutes_map_Num)
qed


lemma numcol_InrD: "numcol df c = Inr xs \<Longrightarrow> map_of df c \<noteq> None"
  by (auto simp: numcol_def getitem_def bind_exn_def split: option.splits)

lemma bind_exn_InrD: "bind_exn m f = Inr y \<Longrightarrow> \<exists>x. m = Inr x \<and> f x = Inr y"
  by (cases m) (simp_all add: bind_exn_def)

lemma stmt_minutes_played_InrD:
  assumes "stmt_minutes_played rnd df = Inr df'"
  shows "map_of df ''MIN'' \<noteq> None"
    and "c \<noteq> ''MINUTES_PLAYED'' \<Longrightarrow> map_of df' c = map_of df c"
  using assms
  by (auto simp: stmt_minutes_played_def getitem_def map_of_setitem dest!: bind_exn_InrD numcol_InrD
      split: option.splits)

lemma stmt_fg_pct_InrD:
  assumes "stmt_fg_pct rnd df = Inr df'"
  shows "map_of df ''FGA'' \<noteq> None \<and> map_of df ''FGM'' \<noteq> None"
    and "c \<noteq> ''FG_PCT'' \<Longrightarrow> map_of df' c = map_of df c"
  using assms
  by (auto simp: stmt_fg_pct_def getitem_def map_of_setitem dest!: bind_exn_InrD numcol_InrD
      split: option.splits)

lemma stmt_ts_pct_InrD:
  assumes "stmt_ts_pct rnd df = Inr df'"
  shows "map_of df ''FGA'' \<noteq> None \<and> map_of df ''FTA'' \<noteq> None \<and> map_of df ''PTS'' \<noteq> None"
    and "c \<noteq> ''TS_PCT'' \<Longrightarrow> map_of df' c = map_of df c"
  using assms
  by (auto simp: stmt_ts_pct_def getitem_def map_of_setitem dest!: bind_exn_InrD numcol_InrD
      split: option.splits)

lemma stmt_pts_per_min_InrD:
  assumes "stmt_pts_per_min rnd df = Inr df'"
  shows "map_of df ''MINUTES_PLAYED'' \<noteq> None \<and> map_of df ''PTS'' \<noteq> None"
    and "c \<noteq> ''PTS_PER_MIN'' \<Longrightarrow> map_of df' c = map_of df c"
  using assms
  by (auto simp: stmt_pts_per_min_def getitem_def map_of_setitem dest!: bind_exn_InrD numcol_InrD
      split: option.splits)

lemma stmt_poss_InrD:
  assumes "stmt_poss rnd df = Inr df'"
  shows "map_of df ''FGA'' \<noteq> None \<and> map_of df ''OREB'' \<noteq> None \<and> map_of df ''TOV'' \<noteq> None \<and> map_of df ''FTA'' \<noteq> None"
    and "c \<noteq> ''POSS'' \<Longrightarrow> map_of df' c = map_of df c"
  using assms
  by (auto simp: stmt_poss_def getitem_def map_of_setitem dest!: bind_exn_InrD numcol_InrD
      split: option.splits)

lemma stmt_off_rating_InrD:
  assumes "stmt_off_rating rnd df = Inr df'"
  shows "map_of df ''POSS'' \<noteq> None \<and> map_of df ''PTS'' \<noteq> None \<and> map_of df ''AST'' \<noteq> None"
    and "c \<noteq> ''OFF_RATING'' \<Longrightarrow> map_of df' c = map_of df c"
  using assms
  by (auto simp: stmt_off_rating_def getitem_def map_of_setitem dest!: bind_exn_InrD numcol_InrD
      split: option.splits)

lemma stmt_def_rating_InrD:
  assumes "stmt_def_rating rnd df = Inr df'"
  shows "map_of df ''MINUTES_PLAYED'' \<noteq> None \<and> map_of df ''STL'' \<noteq> None \<and> map_of df ''BLK'' \<noteq> None \<and> map_of df ''PF'' \<noteq> None \<and> map_of df ''PLUS_MINUS'' \<noteq> None"
    and "c \<noteq> ''DEF_RATING'' \<Longrightarrow> map_of df' c = map_of df c"
  using assms
  by (auto simp: stmt_def_rating_def getitem_def map_of_setitem dest!: bind_exn_InrD numcol_InrD
      split: option.splits)

lemma stmt_game_score_InrD:
  assumes "stmt_game_score rnd df = Inr df'"
  shows "map_of df ''PTS'' \<noteq> None \<and> map_of df ''FGM'' \<noteq> None \<and> map_of df ''FGA'' \<noteq> None \<and> map_of df ''FTA'' \<noteq> None \<and> map_of df ''FTM'' \<noteq> None \<and> map_of df ''OREB'' \<noteq> None \<and> map_of df ''DREB'' \<noteq> None \<and> map_of df ''STL'' \<noteq> None \<and> map_of df ''AST'' \<noteq> None \<and> map_of df ''BLK'' \<noteq> None \<and> map_of df ''PF'' \<noteq> None \<and> map_of df ''TOV'' \<noteq> None"
    and "c \<noteq> ''GAME_SCORE'' \<Longrightarrow> map_of df' c = map_of df c"
  using assms
  by (auto simp: stmt_game_score_def getitem_def map_of_setitem dest!: bind_exn_InrD numcol_InrD
      split: option.splits)

lemma stmt_usg_rate_InrD:
  assumes "stmt_usg_rate rnd df = Inr df'"
  shows "map_of df ''FGA'' \<noteq> None \<and> map_of df ''FTA'' \<noteq> None \<and> map_of df ''TOV'' \<noteq> None \<and> map_of df ''POSS'' \<noteq> None"
    and "c \<noteq> ''USG_RATE'' \<Longrightarrow> map_of df' c = map_of df c"
  using assms
  by (auto simp: stmt_usg_rate_def getitem_def map_of_setitem dest!: bind_exn_InrD numcol_InrD
      split: option.splits)

lemma stmt_ast_to_ratio_InrD:
  assumes "stmt_ast_to_ratio rnd df = Inr df'"
  shows "map_of df ''TOV'' \<noteq> None \<and> map_of df ''AST'' \<noteq> None"
    and "c \<noteq> ''AST_TO_RATIO'' \<Longrightarrow> map_of df' c = map_of df c"
  using assms
  by (auto simp: stmt_ast_to_ratio_def getitem_def map_of_setitem dest!: bind_exn_InrD numcol_InrD
      split: option.splits)


lemma run_derivations_InrD:
  assumes "run_stmts (derivations rnd) df = (F, None)"
  shows "has_columns df required_cols"
proof -
  from assms obtain d1 d2 d3 d4 d5 d6 d7 d8 d9 where st:
    "stmt_minutes_played rnd df = Inr d1" "stmt_fg_pct rnd d1 = Inr d2"
    "stmt_ts_pct rnd d2 = Inr d3" "stmt_pts_per_min rnd d3 = Inr d4"
    "stmt_poss rnd d4 = Inr d5" "stmt_off_rating rnd d5 = Inr d6"
    "stmt_def_rating rnd d6 = Inr d7" "stmt_game_score rnd d7 = Inr d8"
    "stmt_usg_rate rnd d8 = Inr d9" "stmt_ast_to_ratio rnd d9 = Inr F"
    by (auto simp: derivations_def split: sum.splits)
  have k1: "map_of d1 c = map_of df c" if "c \<noteq> ''MINUTES_PLAYED''" for c
    using stmt_minutes_played_InrD(2) [OF st(1) that] .
  have k2: "map_of d2 c = map_of d1 c" if "c \<noteq> ''FG_PCT''" for c
    using stmt_fg_pct_InrD(2) [OF st(2) that] .
  have k3: "map_of d3 c = map_of d2 c" if "c \<noteq> ''TS_PCT''" for c
    using stmt_ts_pct_InrD(2) [OF st(3) that] .
  have k4: "map_of d4 c = map_of d3 c" if "c \<noteq> ''PTS_PER_MIN''" for c
    using stmt_pts_per_min_InrD(2) [OF st(4) that] .
  have k5: "map_of d5 c = map_of d4 c" if "c \<noteq> ''POSS''" for c
    using stmt_poss_InrD(2) [OF st(5) that] .
  have k6: "map_of d6 c = map_of d5 c" if "c \<noteq> ''OFF_RATING''" for c
    using stmt_off_rating_InrD(2) [OF st(6) that] .
  have k7: "map_of d7 c = map_of d6 c" if "c \<noteq> ''DEF_RATING''" for c
    using stmt_def_rating_InrD(2) [OF st(7) that] .
  have "map_of df ''MIN'' \<noteq> None"
    using stmt_minutes_played_InrD(1) [OF st(1)] by simp
  moreover have "map_of df ''FGA'' \<noteq> None \<and> map_of df ''FGM'' \<noteq> None"
    using stmt_fg_pct_InrD(1) [OF st(2)] by (simp add: k1)
  moreover have "map_of df ''FTA'' \<noteq> None \<and> map_of df ''PTS'' \<noteq> None"
    using stmt_ts_pct_InrD(1) [OF st(3)] by (simp add: k1 k2)
  moreover have "map_of df ''OREB'' \<noteq> None \<and> map_of df ''TOV'' \<noteq> None"
    using stmt_poss_InrD(1) [OF st(5)] by (simp add: k1 k2 k3 k4)
  moreover have "map_of df ''AST'' \<noteq> None"
    using stmt_off_rating_InrD(1) [OF st(6)] by (simp add: k1 k2 k3 k4 k5)
  moreover have "map_of df ''STL'' \<noteq> None \<and> map_of df ''BLK'' \<noteq> None
      \<and> map_of df ''PF'' \<noteq> None \<and> map_of df ''PLUS_MINUS'' \<noteq> None"
    using stmt_def_rating_InrD(1) [OF st(7)] by (simp add: k1 k2 k3 k4 k5 k6)
  moreover have "map_of df ''FTM'' \<noteq> None \<and> map_of df ''DREB'' \<noteq> None"
    using stmt_game_score_InrD(1) [OF st(8)] by (simp add: k1 k2 k3 k4 k5 k6 k7)
  ultimately show ?thesis
    by (simp add: has_columns_def required_cols_def in_columns_iff)
qed


lemma required_numeric: "c \<in> set required_cols \<Longrightarrow> c \<in> set numeric_cols"
  by (auto simp: required_cols_def numeric_cols_def)

lemma prepared_required:
  assumes "has_columns df required_cols" "c \<in> set required_cols"
  shows "map_of (prepared rnd df) c = Some (map Num (base_vectors rnd df c))"
proof -
  from assms obtain s where "map_of df c = Some s"
    by (auto simp: has_columns_def list_all_iff in_columns_iff)
  then show ?thesis
    using assms(2) by (simp add: map_of_prepared required_numeric base_vectors_def)
qed

lemma run_prepared:
  assumes "has_columns df required_cols"
  shows "run_stmts (derivations rnd) (prepared rnd df) =
           (derived_frame rnd (base_vectors rnd df) (prepared rnd df), None)"
  by (rule run_derivations) (rule prepared_required [OF assms])

lemma run_prepared_iff:
  "snd (run_stmts (derivations rnd) (prepared rnd df)) = None \<longleftrightarrow> has_columns df required_cols"
proof
  assume "snd (run_stmts (derivations rnd) (prepared rnd df)) = None"
  then have "has_columns (prepared rnd df) required_cols"
    using run_derivations_InrD [of rnd "prepared rnd df"] by (metis prod.collapse)
  then show "has_columns df required_cols"
    by (simp add: has_columns_def columns_prepared)
next
  assume "has_columns df required_cols"
  then show "snd (run_stmts (derivations rnd) (prepared rnd df)) = None"
    by (simp add: run_prepared)
qed

lemma try_body_unfold:
  assumes "df < length h"
  shows "try_body rnd h df =
     (let co = coerce_numeric rnd numeric_cols (h ! df, []);
          st = run_stmts (derivations rnd) (prepared rnd (h ! df))
      in (h[df := fst co] @ [fst st], snd co,
          case snd st of None \<Rightarrow> Inr (length h) | Some e \<Rightarrow> Inl e))"
  using assms
  by (simp add: try_body_def alloc_def prepared_def Let_def split_def nth_append
      split: option.splits)

lemma calculate_advanced_metrics_unfold:
  assumes "game_logs < length h"
  shows "calculate_advanced_metrics rnd h game_logs =
     (let co = coerce_numeric rnd numeric_cols (h ! game_logs, []);
          st = run_stmts (derivations rnd) (prepared rnd (h ! game_logs));
          h4 = h @ [fst co, fst st]
      in case snd st of
           None \<Rightarrow> (h4, snd co, Suc (length h))
         | Some e \<Rightarrow>
             (h4, snd co @ [Error (''Error calculating advanced metrics: '' @ str_exn e)],
              game_logs))"
  using assms
  by (simp add: calculate_advanced_metrics_def copy_def alloc_def try_body_unfold Let_def
      nth_append list_update_append split: option.splits)

lemma enriched_ok:
  assumes "game_logs < length h" "has_columns (h ! game_logs) required_cols"
  shows "enriched rnd h game_logs =
           derived_frame rnd (base_vectors rnd (h ! game_logs)) (prepared rnd (h ! game_logs))"
  using assms
  by (simp add: enriched_def calculate_advanced_metrics_unfold run_prepared nth_append Let_def)

lemma enriched_fallback:
  assumes "game_logs < length h" "\<not> has_columns (h ! game_logs) required_cols"
  shows "enriched rnd h game_logs = h ! game_logs"
proof -
  from assms(2) obtain e where "snd (run_stmts (derivations rnd) (prepared rnd (h ! game_logs))) = Some e"
    using run_prepared_iff [of rnd "h ! game_logs"] by auto
  then show ?thesis using assms(1)
    by (simp add: enriched_def calculate_advanced_metrics_unfold nth_append Let_def)
qed


lemma numcol_derived_frame:
  assumes "\<And>c. c \<in> set required_cols \<Longrightarrow> map_of df c = Some (map Num (v c))"
  shows "numcol (derived_frame rnd v df) ''MINUTES_PLAYED'' = Inr (v ''MIN'')"
    and "numcol (derived_frame rnd v df) ''FG_PCT'' = Inr (vec_fg_pct rnd v)"
    and "numcol (derived_frame rnd v df) ''TS_PCT'' = Inr (vec_ts_pct rnd v)"
    and "numcol (derived_frame rnd v df) ''PTS_PER_MIN'' = Inr (vec_pts_per_min rnd v)"
    and "numcol (derived_frame rnd v df) ''POSS'' = Inr (vec_poss rnd v)"
    and "numcol (derived_frame rnd v df) ''OFF_RATING'' = Inr (vec_off_rating rnd v)"
    and "numcol (derived_frame rnd v df) ''DEF_RATING'' = Inr (vec_def_rating rnd v)"
    and "numcol (derived_frame rnd v df) ''GAME_SCORE'' = Inr (vec_game_score rnd v)"
    and "numcol (derived_frame rnd v df) ''USG_RATE'' = Inr (vec_usg_rate rnd v)"
    and "numcol (derived_frame rnd v df) ''AST_TO_RATIO'' = Inr (vec_ast_to_ratio rnd v)"
    and "c \<in> set required_cols \<Longrightarrow> numcol (derived_frame rnd v df) c = Inr (v c)"
proof -
  show "numcol (derived_frame rnd v df) c = Inr (v c)" if "c \<in> set required_cols"
  proof -
    have "numcol df c = Inr (v c)"
      using assms [OF that] by (simp add: numcol_def getitem_def bind_exn_def floats_map_Num)
    moreover have "c \<notin> {''MINUTES_PLAYED'', ''FG_PCT'', ''TS_PCT'', ''PTS_PER_MIN'', ''POSS'',
        ''OFF_RATING'', ''DEF_RATING'', ''GAME_SCORE'', ''USG_RATE'', ''AST_TO_RATIO''}"
      using that by (auto simp: required_cols_def)
    ultimately show ?thesis by (simp add: derived_frame_def numcol_setitem)
  qed
qed (simp_all add: derived_frame_def numcol_setitem)

lemma map_of_derived_frame:
  "c \<notin> {''MINUTES_PLAYED'', ''FG_PCT'', ''TS_PCT'', ''PTS_PER_MIN'', ''POSS'',
        ''OFF_RATING'', ''DEF_RATING'', ''GAME_SCORE'', ''USG_RATE'', ''AST_TO_RATIO''} \<Longrightarrow>
   map_of (derived_frame rnd v df) c = map_of df c"
  by (simp add: derived_frame_def map_of_setitem)

lemma length_base_vectors:
  "wf_frame n df \<Longrightarrow> c \<in> set (columns df) \<Longrightarrow> length (base_vectors rnd df c) = n"
  by (auto simp: base_vectors_def in_columns_iff dest: wf_frame_length)


lemma enriched_row:
  fixes rnd :: rounding and h :: heap and game_logs :: ref and i :: nat
  assumes "game_logs < length h" "wf_frame n (h ! game_logs)"
    and "has_columns (h ! game_logs) required_cols" "i < n"
  defines "r \<equiv> row (enriched rnd h game_logs) i"
  shows "c \<in> set required_cols \<Longrightarrow> r c = base_vectors rnd (h ! game_logs) c ! i"
    and "c \<in> set required_cols \<union> set derived_cols \<Longrightarrow> numeric_at (enriched rnd h game_logs) i c"
    and "r ''MINUTES_PLAYED'' = r ''MIN''"
    and "r ''FG_PCT'' = (if fgt (r ''FGA'') (Fin 0) then fdiv rnd (r ''FGM'') (r ''FGA'') else Fin 0)"
    and "r ''TS_PCT'' =
          (if fgt (fadd rnd (r ''FGA'') (fmul rnd (lit rnd (44 / 100)) (r ''FTA''))) (Fin 0)
           then fdiv rnd (r ''PTS'')
                  (fmul rnd (Fin 2) (fadd rnd (r ''FGA'') (fmul rnd (lit rnd (44 / 100)) (r ''FTA''))))
           else Fin 0)"
    and "r ''PTS_PER_MIN'' =
          (if fgt (r ''MINUTES_PLAYED'') (Fin 0) then fdiv rnd (r ''PTS'') (r ''MINUTES_PLAYED'')
           else Fin 0)"
    and "r ''POSS'' =
          fadd rnd (fadd rnd (fsub rnd (r ''FGA'') (r ''OREB'')) (r ''TOV''))
            (fmul rnd (lit rnd (44 / 100)) (r ''FTA''))"
    and "r ''OFF_RATING'' =
          (if fgt (r ''POSS'') (Fin 0)
           then fdiv rnd (fmul rnd (Fin 100) (fadd rnd (r ''PTS'') (fmul rnd (lit rnd (15 / 10)) (r ''AST''))))
                  (r ''POSS'')
           else Fin 0)"
    and "r ''DEF_RATING'' =
          (if fgt (r ''MINUTES_PLAYED'') (Fin 0)
           then fsub rnd (Fin 100)
                  (fdiv rnd
                     (fsub rnd
                        (fsub rnd (fmul rnd (Fin 5) (fadd rnd (r ''STL'') (r ''BLK''))) (r ''PF''))
                        (r ''PLUS_MINUS''))
                     (r ''MINUTES_PLAYED''))
           else Fin 0)"
    and "r ''GAME_SCORE'' =
          fsub rnd
           (fsub rnd
             (fadd rnd
               (fadd rnd
                 (fadd rnd
                   (fadd rnd
                     (fadd rnd
                       (fsub rnd
                         (fsub rnd
                           (fadd rnd (r ''PTS'') (fmul rnd (lit rnd (4 / 10)) (r ''FGM'')))
                           (fmul rnd (lit rnd (7 / 10)) (r ''FGA'')))
                         (fmul rnd (lit rnd (4 / 10)) (fsub rnd (r ''FTA'') (r ''FTM''))))
                       (fmul rnd (lit rnd (7 / 10)) (r ''OREB'')))
                     (fmul rnd (lit rnd (3 / 10)) (r ''DREB'')))
                   (r ''STL''))
                 (fmul rnd (lit rnd (7 / 10)) (r ''AST'')))
               (fmul rnd (lit rnd (7 / 10)) (r ''BLK'')))
             (fmul rnd (lit rnd (4 / 10)) (r ''PF'')))
           (r ''TOV'')"
    and "r ''USG_RATE'' =
          fdiv rnd
            (fmul rnd (Fin 100)
               (fadd rnd (fadd rnd (r ''FGA'') (fmul rnd (lit rnd (44 / 100)) (r ''FTA''))) (r ''TOV'')))
            (r ''POSS'')"
    and "r ''AST_TO_RATIO'' =
          (if fgt (r ''TOV'') (Fin 0) then fdiv rnd (r ''AST'') (r ''TOV'') else r ''AST'')"
proof -
  define v where "v = base_vectors rnd (h ! game_logs)"
  define F where "F = derived_frame rnd v (prepared rnd (h ! game_logs))"
  have F: "enriched rnd h game_logs = F"
    using assms(1,3) by (simp add: enriched_ok F_def v_def)
  have pre: "map_of (prepared rnd (h ! game_logs)) c = Some (map Num (v c))"
    if "c \<in> set required_cols" for c
    using prepared_required [OF assms(3) that] by (simp add: v_def)
  have nc:
    "numcol F ''MINUTES_PLAYED'' = Inr (v ''MIN'')"
    "numcol F ''FG_PCT'' = Inr (vec_fg_pct rnd v)"
    "numcol F ''TS_PCT'' = Inr (vec_ts_pct rnd v)"
    "numcol F ''PTS_PER_MIN'' = Inr (vec_pts_per_min rnd v)"
    "numcol F ''POSS'' = Inr (vec_poss rnd v)"
    "numcol F ''OFF_RATING'' = Inr (vec_off_rating rnd v)"
    "numcol F ''DEF_RATING'' = Inr (vec_def_rating rnd v)"
    "numcol F ''GAME_SCORE'' = Inr (vec_game_score rnd v)"
    "numcol F ''USG_RATE'' = Inr (vec_usg_rate rnd v)"
    "numcol F ''AST_TO_RATIO'' = Inr (vec_ast_to_ratio rnd v)"
    unfolding F_def
    by ((rule numcol_derived_frame(1), erule pre),
        (rule numcol_derived_frame(2), erule pre),
        (rule numcol_derived_frame(3), erule pre),
        (rule numcol_derived_frame(4), erule pre),
        (rule numcol_derived_frame(5), erule pre),
        (rule numcol_derived_frame(6), erule pre),
        (rule numcol_derived_frame(7), erule pre),
        (rule numcol_derived_frame(8), erule pre),
        (rule numcol_derived_frame(9), erule pre),
        (rule numcol_derived_frame(10), erule pre))
  have ncb: "numcol F c = Inr (v c)" if "c \<in> set required_cols" for c
    unfolding F_def by (rule numcol_derived_frame(11), erule pre, rule that)
  have len: "length (v c) = n" if "c \<in> set required_cols" for c
    using assms(2,3) that
    by (simp add: v_def length_base_vectors has_columns_def list_all_iff)
  have l [simp]: "length (v ''MIN'') = n" "length (v ''FGA'') = n" "length (v ''FGM'') = n"
    "length (v ''FTA'') = n" "length (v ''PTS'') = n" "length (v ''OREB'') = n"
    "length (v ''TOV'') = n" "length (v ''AST'') = n" "length (v ''STL'') = n"
    "length (v ''BLK'') = n" "length (v ''PF'') = n" "length (v ''PLUS_MINUS'') = n"
    "length (v ''FTM'') = n" "length (v ''DREB'') = n"
    by (simp_all add: len required_cols_def)
  have rb: "row F i c = v c ! i" "numeric_at F i c" if "c \<in> set required_cols" for c
    using numcol_row [OF ncb [OF that]] len [OF that] assms(4) by simp_all
  have b [simp]: "r ''MIN'' = v ''MIN'' ! i" "r ''FGA'' = v ''FGA'' ! i" "r ''FGM'' = v ''FGM'' ! i"
    "r ''FTA'' = v ''FTA'' ! i" "r ''PTS'' = v ''PTS'' ! i" "r ''OREB'' = v ''OREB'' ! i"
    "r ''TOV'' = v ''TOV'' ! i" "r ''AST'' = v ''AST'' ! i" "r ''STL'' = v ''STL'' ! i"
    "r ''BLK'' = v ''BLK'' ! i" "r ''PF'' = v ''PF'' ! i" "r ''PLUS_MINUS'' = v ''PLUS_MINUS'' ! i"
    "r ''FTM'' = v ''FTM'' ! i" "r ''DREB'' = v ''DREB'' ! i"
    by (simp_all add: r_def F rb(1) required_cols_def)
  have lp [simp]: "length (vec_poss rnd v) = n"
    by (simp add: vec_poss_def)
  have d1: "row F i ''MINUTES_PLAYED'' = v ''MIN'' ! i" "numeric_at F i ''MINUTES_PLAYED''"
    using numcol_row [OF nc(1)] assms(4) by simp_all
  have d2: "row F i ''FG_PCT'' = vec_fg_pct rnd v ! i" "numeric_at F i ''FG_PCT''"
    using numcol_row [OF nc(2), of i] assms(4) by (simp_all add: vec_fg_pct_def)
  have d3: "row F i ''TS_PCT'' = vec_ts_pct rnd v ! i" "numeric_at F i ''TS_PCT''"
    using numcol_row [OF nc(3), of i] assms(4) by (simp_all add: vec_ts_pct_def)
  have d4: "row F i ''PTS_PER_MIN'' = vec_pts_per_min rnd v ! i" "numeric_at F i ''PTS_PER_MIN''"
    using numcol_row [OF nc(4), of i] assms(4) by (simp_all add: vec_pts_per_min_def)
  have d5: "row F i ''POSS'' = vec_poss rnd v ! i" "numeric_at F i ''POSS''"
    using numcol_row [OF nc(5), of i] assms(4) by simp_all
  have d6: "row F i ''OFF_RATING'' = vec_off_rating rnd v ! i" "numeric_at F i ''OFF_RATING''"
    using numcol_row [OF nc(6), of i] assms(4) by (simp_all add: vec_off_rating_def)
  have d7: "row F i ''DEF_RATING'' = vec_def_rating rnd v ! i" "numeric_at F i ''DEF_RATING''"
    using numcol_row [OF nc(7), of i] assms(4) by (simp_all add: vec_def_rating_def)
  have d8: "row F i ''GAME_SCORE'' = vec_game_score rnd v ! i" "numeric_at F i ''GAME_SCORE''"
    using numcol_row [OF nc(8), of i] assms(4) by (simp_all add: vec_game_score_def)
  have d9: "row F i ''USG_RATE'' = vec_usg_rate rnd v ! i" "numeric_at F i ''USG_RATE''"
    using numcol_row [OF nc(9), of i] assms(4) by (simp_all add: vec_usg_rate_def)
  have d10: "row F i ''AST_TO_RATIO'' = vec_ast_to_ratio rnd v ! i" "numeric_at F i ''AST_TO_RATIO''"
    using numcol_row [OF nc(10), of i] assms(4) by (simp_all add: vec_ast_to_ratio_def)
  show "c \<in> set required_cols \<Longrightarrow> r c = base_vectors rnd (h ! game_logs) c ! i"
    using rb(1) by (simp add: r_def F v_def)
  show "c \<in> set required_cols \<union> set derived_cols \<Longrightarrow> numeric_at (enriched rnd h game_logs) i c"
    using rb(2) d1(2) d2(2) d3(2) d4(2) d5(2) d6(2) d7(2) d8(2) d9(2) d10(2)
    by (auto simp: F derived_cols_def)
  have e: "r c = row F i c" for c by (simp add: r_def F)
  have p [simp]: "r ''POSS'' = vec_poss rnd v ! i" by (simp add: e d5)
  have mp [simp]: "r ''MINUTES_PLAYED'' = v ''MIN'' ! i" by (simp add: e d1)
  have pv: "vec_poss rnd v ! i =
      fadd rnd (fadd rnd (fsub rnd (v ''FGA'' ! i) (v ''OREB'' ! i)) (v ''TOV'' ! i))
        (fmul rnd (lit rnd (44 / 100)) (v ''FTA'' ! i))"
    using assms(4) by (simp add: vec_poss_def)
  show "r ''MINUTES_PLAYED'' = r ''MIN''" by simp
  show "r ''FG_PCT'' = (if fgt (r ''FGA'') (Fin 0) then fdiv rnd (r ''FGM'') (r ''FGA'') else Fin 0)"
    using assms(4) by (simp add: e [of "''FG_PCT''"] d2 vec_fg_pct_def)
  show "r ''TS_PCT'' =
          (if fgt (fadd rnd (r ''FGA'') (fmul rnd (lit rnd (44 / 100)) (r ''FTA''))) (Fin 0)
           then fdiv rnd (r ''PTS'')
                  (fmul rnd (Fin 2) (fadd rnd (r ''FGA'') (fmul rnd (lit rnd (44 / 100)) (r ''FTA''))))
           else Fin 0)"
    using assms(4) by (simp add: e [of "''TS_PCT''"] d3 vec_ts_pct_def)
  show "r ''PTS_PER_MIN'' =
          (if fgt (r ''MINUTES_PLAYED'') (Fin 0) then fdiv rnd (r ''PTS'') (r ''MINUTES_PLAYED'')
           else Fin 0)"
    using assms(4) by (simp add: e [of "''PTS_PER_MIN''"] d4 vec_pts_per_min_def)
  show "r ''POSS'' =
          fadd rnd (fadd rnd (fsub rnd (r ''FGA'') (r ''OREB'')) (r ''TOV''))
            (fmul rnd (lit rnd (44 / 100)) (r ''FTA''))"
    by (simp add: pv)
  show "r ''OFF_RATING'' =
          (if fgt (r ''POSS'') (Fin 0)
           then fdiv rnd (fmul rnd (Fin 100) (fadd rnd (r ''PTS'') (fmul rnd (lit rnd (15 / 10)) (r ''AST''))))
                  (r ''POSS'')
           else Fin 0)"
    using assms(4) by (simp add: e [of "''OFF_RATING''"] d6 vec_off_rating_def)
  show "r ''DEF_RATING'' =
          (if fgt (r ''MINUTES_PLAYED'') (Fin 0)
           then fsub rnd (Fin 100)
                  (fdiv rnd
                     (fsub rnd
                        (fsub rnd (fmul rnd (Fin 5) (fadd rnd (r ''STL'') (r ''BLK''))) (r ''PF''))
                        (r ''PLUS_MINUS''))
                     (r ''MINUTES_PLAYED''))
           else Fin 0)"
    using assms(4) by (simp add: e [of "''DEF_RATING''"] d7 vec_def_rating_def)
  show "r ''GAME_SCORE'' =
          fsub rnd
           (fsub rnd
             (fadd rnd
               (fadd rnd
                 (fadd rnd
                   (fadd rnd
                     (fadd rnd
                       (fsub rnd
                         (fsub rnd
                           (fadd rnd (r ''PTS'') (fmul rnd (lit rnd (4 / 10)) (r ''FGM'')))
                           (fmul rnd (lit rnd (7 / 10)) (r ''FGA'')))
                         (fmul rnd (lit rnd (4 / 10)) (fsub rnd (r ''FTA'') (r ''FTM''))))
                       (fmul rnd (lit rnd (7 / 10)) (r ''OREB'')))
                     (fmul rnd (lit rnd (3 / 10)) (r ''DREB'')))
                   (r ''STL''))
                 (fmul rnd (lit rnd (7 / 10)) (r ''AST'')))
               (fmul rnd (lit rnd (7 / 10)) (r ''BLK'')))
             (fmul rnd (lit rnd (4 / 10)) (r ''PF'')))
           (r ''TOV'')"
    using assms(4) by (simp add: e [of "''GAME_SCORE''"] d8 vec_game_score_def)
  show "r ''USG_RATE'' =
          fdiv rnd
            (fmul rnd (Fin 100)
               (fadd rnd (fadd rnd (r ''FGA'') (fmul rnd (lit rnd (44 / 100)) (r ''FTA''))) (r ''TOV'')))
            (r ''POSS'')"
    using assms(4) by (simp add: e [of "''USG_RATE''"] d9 vec_usg_rate_def)
  show "r ''AST_TO_RATIO'' =
          (if fgt (r ''TOV'') (Fin 0) then fdiv rnd (r ''AST'') (r ''TOV'') else r ''AST'')"
    using assms(4) by (simp add: e [of "''AST_TO_RATIO''"] d10 vec_ast_to_ratio_def)
qed

section \<open>Example game logs: their columns\<close>



lemma coerced_Fin [simp]: "coerced rnd (Num (Fin x)) = Fin x"
  by (simp add: coerced_def)





lemma example_wf: "wf_frame 1 game_logs_example" "has_columns game_logs_example required_cols"
  by (simp_all add: wf_frame_def has_columns_def game_logs_example_def box_score_def
      one_game_def columns_def required_cols_def)












lemma no_pf_columns:
  "''PF'' \<notin> set (columns game_logs_no_pf)"
  "\<not> has_columns game_logs_no_pf required_cols"
  "map_of game_logs_no_pf ''GAME_SCORE'' = None"
  "map_of game_logs_no_pf ''DEF_RATING'' = None"
  by (simp_all add: game_logs_no_pf_def game_logs_example_def box_score_def one_game_def
      columns_def has_columns_def required_cols_def)

lemma try_body_copy:
  assumes "game_logs < length h"
  shows "try_body rnd (fst (copy h game_logs)) (snd (copy h game_logs)) =
     (h @ [fst (coerce_numeric rnd numeric_cols (h ! game_logs, [])),
           fst (run_stmts (derivations rnd) (prepared rnd (h ! game_logs)))],
      snd (coerce_numeric rnd numeric_cols (h ! game_logs, [])),
      case snd (run_stmts (derivations rnd) (prepared rnd (h ! game_logs))) of
        None \<Rightarrow> Inr (Suc (length h)) | Some e \<Rightarrow> Inl e)"
  using assms
  by (simp add: copy_def alloc_def try_body_unfold Let_def nth_append list_update_append
      split: option.splits)

lemma try_body_raises_iff:
  assumes "game_logs < length h"
  shows "(\<exists>e. snd (snd (try_body rnd (fst (copy h game_logs)) (snd (copy h game_logs)))) = Inl e)
         \<longleftrightarrow> \<not> has_columns (h ! game_logs) required_cols"
  using run_prepared_iff [of rnd "h ! game_logs"]
  by (auto simp: try_body_copy [OF assms] split: option.splits)

lemma run_derivations_no_pf:
  assumes "\<And>c. c \<in> set required_cols \<Longrightarrow> c \<noteq> ''PF'' \<Longrightarrow> map_of df c = Some (map Num (v c))"
    and "map_of df ''PF'' = None"
  shows "snd (run_stmts (derivations rnd) df) = Some (KeyError ''PF'')"
proof -
  have b: "numcol df c = Inr (v c)" if "c \<in> set required_cols" "c \<noteq> ''PF''" for c
    using assms(1) [OF that] by (simp add: numcol_def getitem_def bind_exn_def floats_map_Num)
  note bs = b [of "''FGA''"] b [of "''FGM''"] b [of "''FTA''"] b [of "''PTS''"] b [of "''OREB''"]
    b [of "''TOV''"] b [of "''AST''"] b [of "''STL''"] b [of "''BLK''"]
    b [of "''PLUS_MINUS''"] b [of "''FTM''"] b [of "''DREB''"]
  have m: "getitem df ''MIN'' = Inr (map Num (v ''MIN''))"
    using assms(1) [of "''MIN''"] by (simp add: required_cols_def getitem_def)
  have p: "numcol df ''PF'' = Inl (KeyError ''PF'')"
    using assms(2) by (rule numcol_absent)
  show ?thesis
    using bs m p
    by (simp add: required_cols_def derivations_def
        stmt_minutes_played_def stmt_fg_pct_def stmt_ts_pct_def stmt_pts_per_min_def
        stmt_poss_def stmt_off_rating_def stmt_def_rating_def
        bind_exn_def numcol_setitem apply_minutes_map_Num)
qed

lemma no_pf_raises:
  "snd (run_stmts (derivations rnd) (prepared rnd game_logs_no_pf)) = Some (KeyError ''PF'')"
proof (rule run_derivations_no_pf)
  have "''PF'' \<notin> set (columns (prepared rnd game_logs_no_pf))"
    using no_pf_columns(1) by (simp add: columns_prepared)
  then show "map_of (prepared rnd game_logs_no_pf) ''PF'' = None"
    by (simp add: in_columns_iff)
next
  fix c assume c: "c \<in> set required_cols" "c \<noteq> ''PF''"
  then obtain s where s: "map_of game_logs_no_pf c = Some s"
    by (auto simp: required_cols_def game_logs_no_pf_def game_logs_example_def box_score_def
        one_game_def)
  show "map_of (prepared rnd game_logs_no_pf) c =
      Some (map Num (base_vectors rnd game_logs_no_pf c))"
    using c(1) s by (simp add: map_of_prepared required_numeric base_vectors_def)
qed

lemma in_set_dropWhile: "x \<in> set xs \<Longrightarrow> \<not> P x \<Longrightarrow> x \<in> set (dropWhile P xs)"
  by (induction xs) auto

lemma colon_chars [simp]:
  "\<not> is_space (CHR '':'')" "\<not> is_digit (CHR '':'')" "lower (CHR '':'') = CHR '':''"
  by (simp_all add: is_space_def is_digit_def lower_def)

lemma colon_strip: "CHR '':'' \<in> set s \<Longrightarrow> CHR '':'' \<in> set (strip s)"
  by (simp add: strip_def in_set_dropWhile)

lemma parse_exponent_colon: "CHR '':'' \<in> set r \<Longrightarrow> parse_exponent r = None"
proof -
  assume c: "CHR '':'' \<in> set r"
  have n: "\<not> list_all is_digit ds" if "CHR '':'' \<in> set ds" for ds
    using that colon_chars(2) unfolding list_all_iff by blast
  show ?thesis
  proof (cases r)
    case Nil
    with c show ?thesis by simp
  next
    case (Cons x y)
    show ?thesis
    proof (cases "x = CHR ''-'' \<or> x = CHR ''+''")
      case True
      with c Cons have "CHR '':'' \<in> set y" by auto
      with True Cons show ?thesis by (auto simp: parse_exponent_def n)
    next
      case False
      have "\<not> list_all is_digit r" using c by (rule n)
      with False Cons show ?thesis by (auto simp: parse_exponent_def)
    qed
  qed
qed

lemma parse_decimal_colon: "CHR '':'' \<in> set u \<Longrightarrow> parse_decimal u = None"
proof -
  assume c: "CHR '':'' \<in> set u"
  then have c1: "CHR '':'' \<in> set (dropWhile is_digit u)"
    by (simp add: in_set_dropWhile)
  then obtain x r where r1: "dropWhile is_digit u = x # r"
    by (cases "dropWhile is_digit u") auto
  define r2 where "r2 = (if x = CHR ''.'' then dropWhile is_digit r else x # r)"
  have c2: "CHR '':'' \<in> set r2"
    using c1 r1 by (auto simp: r2_def in_set_dropWhile)
  then obtain y t where r2': "r2 = y # t"
    by (cases r2) auto
  have "parse_exponent t = None" if "y = CHR ''e'' \<or> y = CHR ''E''"
    using c2 r2' that by (auto intro: parse_exponent_colon)
  then show ?thesis
    using r1 r2' by (auto simp: parse_decimal_def Let_def r2_def split: if_splits)
qed

lemma colon_not_word:
  assumes "CHR '':'' \<in> set u"
  shows "map lower u \<noteq> ''inf''" "map lower u \<noteq> ''infinity''" "map lower u \<noteq> ''nan''"
proof -
  have "CHR '':'' \<in> set (map lower u)"
    using assms by (metis colon_chars(3) image_eqI set_map)
  then show "map lower u \<noteq> ''inf''" "map lower u \<noteq> ''infinity''" "map lower u \<noteq> ''nan''"
    by auto
qed

lemma str_to_float_colon: "CHR '':'' \<in> set s \<Longrightarrow> str_to_float rnd s = None"
proof -
  assume "CHR '':'' \<in> set s"
  then have c: "CHR '':'' \<in> set (strip s)" by (rule colon_strip)
  then obtain x y where t: "strip s = x # y" by (cases "strip s") auto
  consider (sign) "x = CHR ''-'' \<or> x = CHR ''+''" | (none) "x \<noteq> CHR ''-''" "x \<noteq> CHR ''+''"
    by auto
  then show ?thesis
  proof cases
    case sign
    then have cy: "CHR '':'' \<in> set y" using c t by auto
    show ?thesis
      using sign colon_not_word [OF cy] parse_decimal_colon [OF cy]
      by (auto simp: str_to_float_def t)
  next
    case none
    have cu: "CHR '':'' \<in> set (x # y)" using c t by simp
    show ?thesis
      using none colon_not_word [OF cu] parse_decimal_colon [OF cu]
      by (simp add: str_to_float_def t)
  qed
qed

lemma coerced_colon: "CHR '':'' \<in> set t \<Longrightarrow> coerced rnd (Str t) = Fin 0"
  by (simp add: coerced_def str_to_float_colon)

lemma required_is_coerced:
  assumes "game_logs < length h" "wf_frame n (h ! game_logs)"
    and "has_columns (h ! game_logs) required_cols" "i < n"
    and "c \<in> set required_cols" "cell_at (h ! game_logs) i c = Some x"
  shows "row (enriched rnd h game_logs) i c = coerced rnd x"
proof -
  from assms(6) obtain s where s: "map_of (h ! game_logs) c = Some s" "x = s ! i" "i < length s"
    by (auto simp: cell_at_def split: option.splits if_splits)
  have "row (enriched rnd h game_logs) i c = base_vectors rnd (h ! game_logs) c ! i"
    by (rule enriched_row(1) [OF assms(1-5)])
  also have "\<dots> = coerced rnd x"
    using s by (simp add: base_vectors_def)
  finally show ?thesis .
qed

lemma missing_value_is_zero:
  assumes "game_logs < length h" "wf_frame n (h ! game_logs)"
    and "has_columns (h ! game_logs) required_cols" "i < n"
    and "c \<in> set required_cols" "cell_at (h ! game_logs) i c = Some x"
    and "x = Num NaN \<or> (\<exists>t. x = Str t \<and> str_to_float rnd t = None)"
  shows "row (enriched rnd h game_logs) i c = Fin 0"
  using required_is_coerced [OF assms(1-6), of rnd] assms(7)
  by (auto simp: coerced_def)

lemma minutes_played_is_coerced_min:
  assumes "game_logs < length h" "wf_frame n (h ! game_logs)"
    and "has_columns (h ! game_logs) required_cols" "i < n"
    and "cell_at (h ! game_logs) i ''MIN'' = Some x"
  shows "row (enriched rnd h game_logs) i ''MINUTES_PLAYED'' = coerced rnd x"
proof -
  have "row (enriched rnd h game_logs) i ''MINUTES_PLAYED'' = row (enriched rnd h game_logs) i ''MIN''"
    by (rule enriched_row(3) [OF assms(1-4)])
  also have "\<dots> = coerced rnd x"
    by (rule required_is_coerced [OF assms(1-4) _ assms(5)]) (simp add: required_cols_def)
  finally show ?thesis .
qed

lemma mmss_wf: "wf_frame 1 game_logs_mmss" "has_columns game_logs_mmss required_cols"
  "cell_at game_logs_mmss 0 ''MIN'' = Some (Str ''32:30'')"
  by (simp_all add: wf_frame_def has_columns_def game_logs_mmss_def game_logs_example_def
      box_score_def one_game_def columns_def required_cols_def setitem_def cell_at_def)

lemma example_min: "cell_at game_logs_example 0 ''MIN'' = Some (Num (Fin 30))"
  by (simp add: game_logs_example_def box_score_def one_game_def cell_at_def)

lemma minutes_lambda_mmss: "minutes_lambda fl64 (Str ''32:30'') = Inr (Fin (65 / 2))"
  by code_simp

lemma getitems_present:
  "set cs \<subseteq> set (columns df) \<Longrightarrow>
   getitems df cs = Inr (map (\<lambda>c. (c, case map_of df c of None \<Rightarrow> [] | Some s \<Rightarrow> s)) cs)"
  by (induction cs) (auto simp: getitem_def bind_exn_def in_columns_iff)

lemma getitems_available: "getitems df (available_columns df) = Inr (select_available df)"
  unfolding select_available_def
  by (rule getitems_present) (auto simp: available_columns_def)

lemma project_unfold: "project srt df = sort_values srt (select_available df) ''GAME_DATE''"
  by (simp add: project_def getitems_available bind_exn_def)

lemma map_of_select_available:
  "map_of (select_available df) c = (if c \<in> set (available_columns df) then map_of df c else None)"
proof -
  have "map_of (map (\<lambda>c. (c, f c)) cs) c = (if c \<in> set cs then Some (f c) else None)"
    for f :: "string \<Rightarrow> series" and cs
    by (induction cs) auto
  then show ?thesis
    by (auto simp: select_available_def available_columns_def in_columns_iff)
qed

lemma columns_select_available: "columns (select_available df) = available_columns df"
  by (simp add: select_available_def columns_def comp_def)

lemma getitem_select_date:
  "getitem (select_available df) ''GAME_DATE'' = getitem df ''GAME_DATE''"
  by (auto simp: getitem_def map_of_select_available available_columns_def ts_columns_def
      in_columns_iff)

lemma project_no_date:
  assumes "''GAME_DATE'' \<notin> set (columns df)"
  shows "project srt df = Inl (KeyError ''GAME_DATE'')"
proof -
  have "getitem df ''GAME_DATE'' = Inl (KeyError ''GAME_DATE'')"
    using assms by (simp add: getitem_def in_columns_iff)
  then show ?thesis
    by (simp add: project_unfold sort_values_def getitem_select_date bind_exn_def)
qed

lemma columns_enriched:
  assumes "game_logs < length h" "c \<notin> set derived_cols"
  shows "c \<in> set (columns (enriched rnd h game_logs)) \<longleftrightarrow> c \<in> set (columns (h ! game_logs))"
proof (cases "has_columns (h ! game_logs) required_cols")
  case True
  have "map_of (enriched rnd h game_logs) c = map_of (prepared rnd (h ! game_logs)) c"
    using assms(2) by (simp add: enriched_ok [OF assms(1) True] map_of_derived_frame derived_cols_def)
  then have "c \<in> set (columns (enriched rnd h game_logs)) \<longleftrightarrow>
      c \<in> set (columns (prepared rnd (h ! game_logs)))"
    by (simp add: in_columns_iff)
  then show ?thesis by (simp add: columns_prepared)
next
  case False
  then show ?thesis by (simp add: enriched_fallback [OF assms(1)])
qed

lemma columns_head: "columns (head n df) = columns df"
  by (simp add: head_def columns_def comp_def split_def)

lemma get_player_stats_retrieved:
  assumes "nrows (head num_games (h ! r)) \<noteq> 0"
  shows "get_player_stats srt rnd player_name num_games h (Inr (Some r)) =
     (let h0 = h @ [head num_games (h ! r)]
      in case project srt (enriched rnd h0 (length h)) of
           Inl e \<Rightarrow>
             (fst (calculate_advanced_metrics rnd h0 (length h)),
              Info (''Retrieving stats for player: '' @ player_name) #
                fst (snd (calculate_advanced_metrics rnd h0 (length h))),
              Inl e)
         | Inr fr \<Rightarrow>
             (fst (calculate_advanced_metrics rnd h0 (length h)) @ [fr],
              Info (''Retrieving stats for player: '' @ player_name) #
                fst (snd (calculate_advanced_metrics rnd h0 (length h))) @
                [Info (''Successfully retrieved stats for player: '' @ player_name)],
              Inr (Some (length (fst (calculate_advanced_metrics rnd h0 (length h)))))))"
  using assms
  by (simp add: get_player_stats_def get_recent_game_logs_def enriched_def alloc_def split_def
      Let_def split: sum.splits)

lemma get_player_stats_no_date:
  assumes "nrows (head num_games (h ! r)) \<noteq> 0" "''GAME_DATE'' \<notin> set (columns (h ! r))"
  shows "snd (snd (get_player_stats srt rnd player_name num_games h (Inr (Some r)))) =
           Inl (KeyError ''GAME_DATE'')"
proof -
  have "''GAME_DATE'' \<notin> set (columns (enriched rnd (h @ [head num_games (h ! r)]) (length h)))"
    using assms(2) by (simp add: columns_enriched derived_cols_def columns_head)
  then show ?thesis
    by (simp add: get_player_stats_retrieved [OF assms(1)] project_no_date Let_def)
qed


lemma no_date_columns: "''GAME_DATE'' \<notin> set (columns game_logs_no_date)"
  by (simp add: game_logs_no_date_def game_logs_example_def box_score_def one_game_def columns_def)



section \<open>Example game logs: evaluations\<close>



section \<open>Claims\<close>

text \<open>
  Claim C1, at the input where the code departs from it. The claim: a minutes value of
  the form \<open>MM:SS\<close> gives \<open>MINUTES_PLAYED = MM + SS/60\<close>, and a numeric minutes value
  gives its float value. The lambda alone maps \<open>32:30\<close> to \<open>32.5\<close>; but \<open>MIN\<close> is one of
  the columns coerced by \<open>to_numeric\<close> before the lambda runs, so the string has become
  NaN and then \<open>0\<close>: the game log with \<open>MIN = 32:30\<close> has \<open>MINUTES_PLAYED = 0\<close>. The
  numeric value \<open>MIN = 30\<close> gives \<open>MINUTES_PLAYED = 30\<close>.
\<close>

theorem mmss_minutes_are_zero:
  "cell_at game_logs_mmss 0 ''MIN'' = Some (Str ''32:30'') \<and>
   minutes_lambda fl64 (Str ''32:30'') = Inr (Fin (65 / 2)) \<and>
   row (enriched fl64 [game_logs_mmss] 0) 0 ''MINUTES_PLAYED'' = Fin 0 \<and>
   cell_at game_logs_example 0 ''MIN'' = Some (Num (Fin 30)) \<and>
   row (enriched fl64 [game_logs_example] 0) 0 ''MINUTES_PLAYED'' = Fin 30"
proof -
  have "row (enriched fl64 [game_logs_mmss] 0) 0 ''MINUTES_PLAYED'' = coerced fl64 (Str ''32:30'')"
    using minutes_played_is_coerced_min [of 0 "[game_logs_mmss]" 1 0 "Str ''32:30''" fl64] mmss_wf
    by simp
  moreover have "row (enriched fl64 [game_logs_example] 0) 0 ''MINUTES_PLAYED'' = coerced fl64 (Num (Fin 30))"
    using minutes_played_is_coerced_min [of 0 "[game_logs_example]" 1 0 "Num (Fin 30)" fl64]
      example_wf example_min
    by simp
  ultimately show ?thesis
    using mmss_wf(3) example_min minutes_lambda_mmss by (simp add: coerced_colon)
qed

text \<open>
  Claim C2, at an input where the code departs from it. The claim: no failure is
  ever raised to the caller of \<open>get_player_stats\<close>. The projection keeps the columns
  of \<open>ts_columns\<close> that exist and then sorts by \<open>GAME_DATE\<close>, outside any \<open>try\<close>:
  for game logs without a \<open>GAME_DATE\<close> column the sort raises KeyError, and the
  exception leaves \<open>get_player_stats\<close>, whatever the sort and the rounding.
\<close>

theorem missing_date_raises:
  "snd (snd (get_player_stats srt rnd player_name 30 [game_logs_no_date] (Inr (Some 0)))) =
     Inl (KeyError ''GAME_DATE'')"
proof -
  have "nrows (head 30 ([game_logs_no_date] ! 0)) \<noteq> 0"
    by (simp add: nrows_def head_def game_logs_no_date_def game_logs_example_def one_game_def)
  then show ?thesis
    using get_player_stats_no_date [of 30 "[game_logs_no_date]" 0] no_date_columns by simp
qed














text \<open>
  Claim C8. If the body of the \<open>try\<close> raises an exception \<open>e\<close>,
  \<open>calculate_advanced_metrics\<close> catches it: it logs the error
  \<open>Error calculating advanced metrics: str(e)\<close> and returns the reference \<open>game_logs\<close>
  it was given. The frame behind that reference, and every frame that existed before
  the call, is what it was before the call, since the body worked on a copy. Nothing is
  raised to the caller: the function returns in every case.
\<close>

theorem exception_returns_original:
  assumes "game_logs < length h"
    and "try_body rnd (fst (copy h game_logs)) (snd (copy h game_logs)) = (h', lg, Inl e)"
  shows "calculate_advanced_metrics rnd h game_logs =
           (h', lg @ [Error (''Error calculating advanced metrics: '' @ str_exn e)], game_logs) \<and>
         h' ! game_logs = h ! game_logs \<and>
         take (length h) h' = h"
proof -
  have "calculate_advanced_metrics rnd h game_logs =
           (h', lg @ [Error (''Error calculating advanced metrics: '' @ str_exn e)], game_logs)"
    using assms(2) by (simp add: calculate_advanced_metrics_def split_def)
  moreover have "h' = h @ [fst (coerce_numeric rnd numeric_cols (h ! game_logs, [])),
           fst (run_stmts (derivations rnd) (prepared rnd (h ! game_logs)))]"
    using assms(2) by (simp add: try_body_copy [OF assms(1)])
  ultimately show ?thesis
    using assms(1) by (simp add: nth_append)
qed

theorem exception_returns_original_witness:
  "0 < length [game_logs_no_pf] \<and>
   snd (snd (try_body fl64 (fst (copy [game_logs_no_pf] 0)) (snd (copy [game_logs_no_pf] 0)))) =
     Inl (KeyError ''PF'') \<and>
   snd (snd (calculate_advanced_metrics fl64 [game_logs_no_pf] 0)) = 0 \<and>
   fst (calculate_advanced_metrics fl64 [game_logs_no_pf] 0) ! 0 = game_logs_no_pf \<and>
   take 1 (fst (calculate_advanced_metrics fl64 [game_logs_no_pf] 0)) = [game_logs_no_pf] \<and>
   last (fst (snd (calculate_advanced_metrics fl64 [game_logs_no_pf] 0))) =
     Error (''Error calculating advanced metrics: '' @ str_exn (KeyError ''PF''))"
proof -
  have H: "0 < length [game_logs_no_pf]" by simp
  obtain h' lg where t:
    "try_body fl64 (fst (copy [game_logs_no_pf] 0)) (snd (copy [game_logs_no_pf] 0)) =
       (h', lg, Inl (KeyError ''PF''))"
    using no_pf_raises [of fl64] by (simp add: try_body_copy [OF H])
  from exception_returns_original [OF H t] show ?thesis
    using t by simp
qed







end
